theory Spec2Isabelle
  imports Complex_Main
begin

section \<open>Calendar mapper: splitting an assignment at day boundaries\<close>

text \<open>
  Source: \<^verbatim>\<open>utils/db_helpers.py\<close>. The module defines
  \<^verbatim>\<open>dividir_tarea_en_partes\<close> twice (lines 40 and 644); the second
  definition rebinds the name, so it is the one every caller runs. Python integers are
  unbounded and \<^verbatim>\<open>//\<close> is floor division, which is \<open>div\<close> on \<open>int\<close>.
  The parts are dictionaries with the keys
  \<^verbatim>\<open>inicio, fin, duracion, es_dividida, parte_numero\<close>.
\<close>

datatype py_error = ZeroDivisionError | ValueError | TypeError

record asignacion =
  asig_inicio :: int
  asig_fin :: int

record parte =
  p_inicio :: int
  p_fin :: int
  p_duracion :: int
  p_es_dividida :: bool
  p_parte_numero :: int

text \<open>
  The \<^verbatim>\<open>while tiempo_actual < fin_min\<close> loop of the second definition. Nothing
  in the source bounds the number of iterations (with a negative
  \<^verbatim>\<open>minutos_por_dia\<close> the cursor moves backwards for ever), so the loop is a
  partial function: \<open>None\<close> means that it does not return.
\<close>

partial_function (option) dividir_loop ::
  "int \<Rightarrow> int \<Rightarrow> int \<Rightarrow> int \<Rightarrow> parte list \<Rightarrow> parte list option" where
  "dividir_loop tiempo_actual fin_min minutos_por_dia parte_numero partes =
     (if tiempo_actual < fin_min then
        (let dia_actual = tiempo_actual div minutos_por_dia;
             fin_dia_actual = (dia_actual + 1) * minutos_por_dia;
             fin_parte = min fin_dia_actual fin_min
         in dividir_loop fin_parte fin_min minutos_por_dia (parte_numero + 1)
              (partes @ [\<lparr>p_inicio = tiempo_actual, p_fin = fin_parte,
                           p_duracion = fin_parte - tiempo_actual,
                           p_es_dividida = True, p_parte_numero = parte_numero\<rparr>]))
      else Some partes)"

declare dividir_loop.simps [code]

text \<open>
  The function itself. \<open>None\<close>: the loop does not return; \<open>Some (Inl e)\<close>: the
  exception \<open>e\<close> is raised (the first \<^verbatim>\<open>//\<close> divides by zero);
  \<open>Some (Inr ps)\<close>: the list \<open>ps\<close> is returned.
\<close>

definition dividir_tarea_en_partes ::
  "asignacion \<Rightarrow> int \<Rightarrow> (py_error + parte list) option" where
  "dividir_tarea_en_partes asig minutos_por_dia =
     (let inicio_min = asig_inicio asig;
          fin_min = asig_fin asig;
          duracion_total = fin_min - inicio_min
      in if minutos_por_dia = 0 then Some (Inl ZeroDivisionError)
         else
           (let dia_inicio = inicio_min div minutos_por_dia;
                dia_fin = fin_min div minutos_por_dia
            in if dia_inicio = dia_fin then
                 Some (Inr [\<lparr>p_inicio = inicio_min, p_fin = fin_min,
                                p_duracion = duracion_total,
                                p_es_dividida = False, p_parte_numero = 1\<rparr>])
               else map_option Inr (dividir_loop inicio_min fin_min minutos_por_dia 1 [])))"

text \<open>
  A chain of parts: it starts at the cursor \<open>t\<close> with number \<open>n\<close>, every part is
  non-empty, ends where the next one starts, stays inside the day of its start, is marked
  as split, and the last part ends at \<open>fin\<close>.
\<close>

fun cadena :: "int \<Rightarrow> int \<Rightarrow> int \<Rightarrow> int \<Rightarrow> parte list \<Rightarrow> bool" where
  "cadena mpd fin t n [] = (t = fin)"
| "cadena mpd fin t n (p # ps) =
     (p_inicio p = t \<and> p_parte_numero p = n \<and> t < p_fin p \<and> p_fin p \<le> fin \<and>
      p_duracion p = p_fin p - t \<and> p_es_dividida p \<and>
      (t div mpd) * mpd \<le> t \<and> p_fin p \<le> (t div mpd + 1) * mpd \<and>
      cadena mpd fin (p_fin p) (n + 1) ps)"

section \<open>Lifecycle manager and execution recorder: the persistence layer\<close>

text \<open>
  Source: \<^verbatim>\<open>modelos/database_models.py\<close> (tables) and
  \<^verbatim>\<open>modelos/database.py\<close> (operations). Every operation opens a session, reads
  rows with \<^verbatim>\<open>query(...).filter(...).first()\<close>, changes them and commits; the model
  passes the database as a value and returns the new one. A table is the list of its rows
  in insertion order; \<^verbatim>\<open>first()\<close> is \<open>find\<close>. Only the columns that the
  modelled operations read or write are kept. \<^verbatim>\<open>datetime.now()\<close> is the argument
  \<open>ahora\<close>. The metrics table, which \<^verbatim>\<open>cambiar_estado_programacion\<close> fills
  after the commit of a transition to \<^verbatim>\<open>COMPLETADA\<close> (inside a
  \<^verbatim>\<open>try\<close> that swallows every failure), is not part of the model.
\<close>

datatype EstadoProgramacion = SIMULACION | PLANIFICADA | EN_EJECUCION | COMPLETADA | CANCELADA

datatype EstadoTarea =
  PENDIENTE | EN_PROGRESO | TAREA_COMPLETADA | RETRASADA | TAREA_CANCELADA

record programacion =
  prog_id :: string
  semana_produccion :: int
  anio :: int
  estado :: EstadoProgramacion
  aprobada_por :: "string option"
  fecha_aprobacion :: "int option"

record tarea =
  tarea_id :: string
  tarea_duracion :: int

record tarea_planificada =
  tp_id :: int
  tp_programacion_id :: string
  tp_tarea_id :: string
  tp_duracion_planificada :: int

text \<open>
  A \<^verbatim>\<open>datetime\<close> is its number of microseconds since a fixed origin, so the
  difference of two of them is the \<^verbatim>\<open>timedelta\<close> in microseconds.
\<close>

record ejecucion_real =
  er_id :: int
  er_tarea_planificada_id :: int
  er_inicio_real :: int
  er_fin_real :: int
  er_duracion_real :: int
  er_maquina_usada :: string
  er_operador_ejecutor :: "string option"
  er_estado :: EstadoTarea
  er_desviacion_duracion :: int
  er_problemas_encontrados :: string
  er_tiempo_paradas :: "int option"
  er_notas_operador :: string
  er_registrado_por :: string

record base_datos =
  programaciones :: "programacion list"
  tareas :: "tarea list"
  tareas_planificadas :: "tarea_planificada list"
  ejecuciones_reales :: "ejecucion_real list"

text \<open>Changing, and deleting, the row that \<^verbatim>\<open>first()\<close> returned.\<close>

fun actualizar_fila :: "('a \<Rightarrow> bool) \<Rightarrow> ('a \<Rightarrow> 'a) \<Rightarrow> 'a list \<Rightarrow> 'a list" where
  "actualizar_fila P f [] = []"
| "actualizar_fila P f (x # xs) = (if P x then f x # xs else x # actualizar_fila P f xs)"

fun eliminar_fila :: "('a \<Rightarrow> bool) \<Rightarrow> 'a list \<Rightarrow> 'a list" where
  "eliminar_fila P [] = []"
| "eliminar_fila P (x # xs) = (if P x then xs else x # eliminar_fila P xs)"

text \<open>
  \<^verbatim>\<open>aprobar_programacion(prog_id, aprobada_por) -> bool\<close>: when the row exists, its
  \<^verbatim>\<open>estado\<close> is set to \<^verbatim>\<open>PLANIFICADA\<close> with no look at the current one.
\<close>

definition aprobar_programacion ::
  "base_datos \<Rightarrow> string \<Rightarrow> string \<Rightarrow> int \<Rightarrow> base_datos \<times> bool" where
  "aprobar_programacion db pid por ahora =
     (case find (\<lambda>p. prog_id p = pid) (programaciones db) of
        Some prog \<Rightarrow>
          (db\<lparr>programaciones :=
                actualizar_fila (\<lambda>p. prog_id p = pid)
                  (\<lambda>p. p\<lparr>estado := PLANIFICADA, aprobada_por := Some por,
                          fecha_aprobacion := Some ahora\<rparr>)
                  (programaciones db)\<rparr>, True)
      | None \<Rightarrow> (db, False))"

text \<open>The table \<^verbatim>\<open>transiciones_validas\<close> of \<^verbatim>\<open>cambiar_estado_programacion\<close>.\<close>

fun transiciones_validas :: "EstadoProgramacion \<Rightarrow> EstadoProgramacion list" where
  "transiciones_validas SIMULACION = [PLANIFICADA, CANCELADA]"
| "transiciones_validas PLANIFICADA = [EN_EJECUCION, CANCELADA]"
| "transiciones_validas EN_EJECUCION = [COMPLETADA]"
| "transiciones_validas COMPLETADA = []"
| "transiciones_validas CANCELADA = []"

text \<open>
  The messages of the source are formatted strings; the model keeps what they are built
  from: the id that was not found, the terminal state, the rejected transition with the
  list of valid targets, or the transition that was made.
\<close>

datatype mensaje =
  No_encontrada string
| Estado_no_modificable EstadoProgramacion
| Transicion_invalida EstadoProgramacion EstadoProgramacion "EstadoProgramacion list"
| Estado_actualizado EstadoProgramacion EstadoProgramacion
| No_se_puede_eliminar EstadoProgramacion
| Eliminada string

text \<open>
  \<^verbatim>\<open>cambiar_estado_programacion(prog_id, nuevo_estado, usuario=None)\<close>. The condition
  \<^verbatim>\<open>nuevo_estado == PLANIFICADA and usuario\<close> is true for a non-empty user name.
\<close>

definition cambiar_estado_programacion ::
  "base_datos \<Rightarrow> string \<Rightarrow> EstadoProgramacion \<Rightarrow> string option \<Rightarrow> int
     \<Rightarrow> base_datos \<times> bool \<times> mensaje" where
  "cambiar_estado_programacion db pid nuevo_estado usuario ahora =
     (case find (\<lambda>p. prog_id p = pid) (programaciones db) of
        None \<Rightarrow> (db, False, No_encontrada pid)
      | Some prog \<Rightarrow>
          (let estado_actual = estado prog in
           if nuevo_estado \<notin> set (transiciones_validas estado_actual) then
             (if transiciones_validas estado_actual = []
              then (db, False, Estado_no_modificable estado_actual)
              else (db, False, Transicion_invalida estado_actual nuevo_estado
                                 (transiciones_validas estado_actual)))
           else
             (db\<lparr>programaciones :=
                   actualizar_fila (\<lambda>p. prog_id p = pid)
                     (\<lambda>p. if nuevo_estado = PLANIFICADA \<and> usuario \<noteq> None \<and> usuario \<noteq> Some []
                           then p\<lparr>estado := nuevo_estado, aprobada_por := usuario,
                                   fecha_aprobacion := Some ahora\<rparr>
                           else p\<lparr>estado := nuevo_estado\<rparr>)
                     (programaciones db)\<rparr>,
              True, Estado_actualizado estado_actual nuevo_estado)))"

text \<open>
  \<^verbatim>\<open>eliminar_programacion(prog_id, forzar=False)\<close>. Deleting the row deletes, by the
  \<^verbatim>\<open>cascade="all, delete-orphan"\<close> relationships of the tables, the planned tasks of
  the programacion and, for each of them, the execution that its one-to-one relationship
  (\<^verbatim>\<open>uselist=False\<close>) loads: the first row of the task. Further executions of
  the same task, which the table does not exclude, stay.
\<close>

definition eliminar_programacion ::
  "base_datos \<Rightarrow> string \<Rightarrow> bool \<Rightarrow> base_datos \<times> bool \<times> mensaje" where
  "eliminar_programacion db pid forzar =
     (case find (\<lambda>p. prog_id p = pid) (programaciones db) of
        None \<Rightarrow> (db, False, No_encontrada pid)
      | Some prog \<Rightarrow>
          if \<not> forzar \<and> estado prog \<in> set [PLANIFICADA, EN_EJECUCION, COMPLETADA]
          then (db, False, No_se_puede_eliminar (estado prog))
          else
            (let borradas = map tp_id (filter (\<lambda>t. tp_programacion_id t = pid)
                                         (tareas_planificadas db))
             in (db\<lparr>programaciones := eliminar_fila (\<lambda>p. prog_id p = pid) (programaciones db),
                     tareas_planificadas :=
                       filter (\<lambda>t. tp_programacion_id t \<noteq> pid) (tareas_planificadas db),
                     ejecuciones_reales :=
                       fold (\<lambda>t. eliminar_fila (\<lambda>e. er_tarea_planificada_id e = t)) borradas
                         (ejecuciones_reales db)\<rparr>,
                 True, Eliminada pid)))"

text \<open>
  \<^verbatim>\<open>int(x / 60)\<close> on the seconds of a \<^verbatim>\<open>timedelta\<close>: Python's
  \<^verbatim>\<open>int\<close> truncates towards zero. The quotient is taken exactly here; the source
  goes through floating point, which gives the same minute for every interval shorter than
  centuries.
\<close>

definition minutos_truncados :: "int \<Rightarrow> int" where
  "minutos_truncados micros =
     (if 0 \<le> micros then micros div 60000000 else - ((- micros) div 60000000))"

text \<open>
  \<^verbatim>\<open>tarea_plan.tarea_id.split('.')[0] if '.' in tarea_plan.tarea_id else
  tarea_plan.tarea_id\<close>: the id of the template task of a part such as \<^verbatim>\<open>A2.P1\<close>.
\<close>

definition tarea_id_base :: "string \<Rightarrow> string" where
  "tarea_id_base tid =
     (if CHR ''.'' \<in> set tid then takeWhile (\<lambda>c. c \<noteq> CHR ''.'') tid else tid)"

text \<open>The key that the storage gives to a new row of an autoincrement table.\<close>

definition siguiente_id :: "int list \<Rightarrow> int" where
  "siguiente_id ids = fold max ids 0 + 1"

text \<open>
  \<^verbatim>\<open>registrar_ejecucion_real\<close>. It raises \<^verbatim>\<open>ValueError\<close> when the planned
  task does not exist and otherwise adds one row and returns its id.
  \<^verbatim>\<open>tiempo_paradas or 0\<close> reads a missing value as 0, and the row stores 0 for it
  as well: the column \<^verbatim>\<open>tiempo_paradas\<close> has \<^verbatim>\<open>default=0\<close>, which the
  insert applies to an attribute that is \<^verbatim>\<open>None\<close>.
\<close>

definition registrar_ejecucion_real ::
  "base_datos \<Rightarrow> int \<Rightarrow> int \<Rightarrow> int \<Rightarrow> string \<Rightarrow> string option \<Rightarrow> string \<Rightarrow> string
     \<Rightarrow> int option \<Rightarrow> string \<Rightarrow> py_error + (base_datos \<times> int)" where
  "registrar_ejecucion_real db tarea_planificada_id inicio_real fin_real maquina_usada
       operador_ejecutor problemas notas tiempo_paradas registrado_por =
     (case find (\<lambda>t. tp_id t = tarea_planificada_id) (tareas_planificadas db) of
        None \<Rightarrow> Inl ValueError
      | Some tarea_plan \<Rightarrow>
          (let duracion_real = minutos_truncados (fin_real - inicio_real);
               base = tarea_id_base (tp_tarea_id tarea_plan);
               duracion_original =
                 (case find (\<lambda>t. tarea_id t = base) (tareas db) of
                    Some tarea_original \<Rightarrow> tarea_duracion tarea_original
                  | None \<Rightarrow> tp_duracion_planificada tarea_plan);
               dur_real_sin_setup =
                 max 0 (duracion_real - (case tiempo_paradas of None \<Rightarrow> 0 | Some v \<Rightarrow> v));
               desviacion_duracion = dur_real_sin_setup - duracion_original;
               estado_tarea = (if desviacion_duracion > 30 then RETRASADA else TAREA_COMPLETADA);
               nuevo_id = siguiente_id (map er_id (ejecuciones_reales db));
               ejecucion = \<lparr>er_id = nuevo_id,
                            er_tarea_planificada_id = tarea_planificada_id,
                            er_inicio_real = inicio_real, er_fin_real = fin_real,
                            er_duracion_real = duracion_real,
                            er_maquina_usada = maquina_usada,
                            er_operador_ejecutor = operador_ejecutor,
                            er_estado = estado_tarea,
                            er_desviacion_duracion = desviacion_duracion,
                            er_problemas_encontrados = problemas,
                            er_tiempo_paradas =
                              Some (case tiempo_paradas of None \<Rightarrow> 0 | Some v \<Rightarrow> v),
                            er_notas_operador = notas,
                            er_registrado_por = registrado_por\<rparr>
           in Inr (db\<lparr>ejecuciones_reales := ejecuciones_reales db @ [ejecucion]\<rparr>, nuevo_id)))"

text \<open>
  The programaciones that count for the weekly uniqueness, and the uniqueness itself: no
  week \<open>(anio, semana)\<close> has two rows in \<open>planificada\<close>, \<open>en_ejecucion\<close> or
  \<open>completada\<close>.
\<close>

definition activa :: "programacion \<Rightarrow> bool" where
  "activa p = (estado p = PLANIFICADA \<or> estado p = EN_EJECUCION \<or> estado p = COMPLETADA)"

definition activas_semana :: "int \<Rightarrow> int \<Rightarrow> programacion list \<Rightarrow> programacion list" where
  "activas_semana a s ps =
     filter (\<lambda>q. activa q \<and> anio q = a \<and> semana_produccion q = s) ps"

definition unicidad_semanal :: "programacion list \<Rightarrow> bool" where
  "unicidad_semanal ps =
     list_all (\<lambda>p. length (activas_semana (anio p) (semana_produccion p) ps) \<le> 1) ps"

text \<open>The position of a state on the line simulacion, planificada, en_ejecucion, completada.\<close>

fun orden_ciclo :: "EstadoProgramacion \<Rightarrow> nat" where
  "orden_ciclo SIMULACION = 0"
| "orden_ciclo PLANIFICADA = 1"
| "orden_ciclo EN_EJECUCION = 2"
| "orden_ciclo COMPLETADA = 3"
| "orden_ciclo CANCELADA = 4"

definition estado_de :: "base_datos \<Rightarrow> string \<Rightarrow> EstadoProgramacion option" where
  "estado_de db pid = map_option estado (find (\<lambda>p. prog_id p = pid) (programaciones db))"

definition ejecuciones_de :: "base_datos \<Rightarrow> int \<Rightarrow> ejecucion_real list" where
  "ejecuciones_de db t = filter (\<lambda>e. er_tarea_planificada_id e = t) (ejecuciones_reales db)"

text \<open>
  Example data: two programaciones of week 42 of 2025 in given states, the template task
  \<open>A2\<close> of 60 minutes, and the planned task 1, the part \<open>A2.P1\<close> of 40 minutes, of the
  second programacion.
\<close>

definition prog_ejemplo :: "string \<Rightarrow> int \<Rightarrow> EstadoProgramacion \<Rightarrow> programacion" where
  "prog_ejemplo pid s e =
     \<lparr>prog_id = pid, semana_produccion = s, anio = 2025, estado = e,
      aprobada_por = None, fecha_aprobacion = None\<rparr>"

definition bd_ejemplo :: "EstadoProgramacion \<Rightarrow> EstadoProgramacion \<Rightarrow> base_datos" where
  "bd_ejemplo e1 e2 =
     \<lparr>programaciones = [prog_ejemplo ''PROG-2025-W42-001'' 42 e1,
                        prog_ejemplo ''PROG-2025-W42-002'' 42 e2],
      tareas = [\<lparr>tarea_id = ''A2'', tarea_duracion = 60\<rparr>],
      tareas_planificadas = [\<lparr>tp_id = 1, tp_programacion_id = ''PROG-2025-W42-002'',
                               tp_tarea_id = ''A2.P1'', tp_duracion_planificada = 40\<rparr>],
      ejecuciones_reales = []\<rparr>"

text \<open>
  The database after the registration, for the planned task 1, of an execution of 100
  minutes with 5 minutes of stops.
\<close>

definition bd_tras_registro :: "base_datos \<Rightarrow> base_datos" where
  "bd_tras_registro db =
     (case registrar_ejecucion_real db 1 0 6000000000 ''M1'' (Some ''OP1'') [] []
             (Some 5) ''Operador'' of
        Inr r \<Rightarrow> fst r
      | Inl err \<Rightarrow> db)"

section \<open>Calendar mapper: clock times\<close>

text \<open>
  Source: \<^verbatim>\<open>app_semanal.py\<close>. A \<^verbatim>\<open>datetime.time\<close> is its hour and
  minute. The session state holds the configured shift start and end and the effective
  minutes per day; a value that is missing, or that the source cannot read as a time, is
  \<open>None\<close>, for which the source takes 08:00, 18:00 and 540.
\<close>

record dt_time =
  hour :: int
  minute :: int

record session_state =
  ss_hora_inicio :: "dt_time option"
  ss_hora_fin :: "dt_time option"
  ss_minutos_por_dia_laboral :: "int option"

text \<open>
  \<^verbatim>\<open>minutos_a_hora_dia(minutos_acumulativos, minutos_por_dia_laboral=None)\<close>. The
  arguments are integers or \<^verbatim>\<open>None\<close> (the source first passes them through
  \<^verbatim>\<open>int(float(...))\<close>). \<^verbatim>\<open>%\<close> raises on a zero divisor, and
  \<^verbatim>\<open>dt_time(h, m)\<close> raises \<^verbatim>\<open>ValueError\<close> outside 0..23 and 0..59.
\<close>

definition minutos_a_hora_dia ::
  "session_state \<Rightarrow> int option \<Rightarrow> int option \<Rightarrow> py_error + dt_time" where
  "minutos_a_hora_dia ss minutos_acumulativos minutos_por_dia_laboral =
     (case minutos_acumulativos of
        None \<Rightarrow>
          Inr (case ss_hora_inicio ss of Some h \<Rightarrow> h | None \<Rightarrow> \<lparr>hour = 8, minute = 0\<rparr>)
      | Some m \<Rightarrow>
          (let hora_inicio =
                 (case ss_hora_inicio ss of Some h \<Rightarrow> h | None \<Rightarrow> \<lparr>hour = 8, minute = 0\<rparr>);
               hora_fin =
                 (case ss_hora_fin ss of Some h \<Rightarrow> h | None \<Rightarrow> \<lparr>hour = 18, minute = 0\<rparr>);
               mpd = (case minutos_por_dia_laboral of
                        Some v \<Rightarrow> v
                      | None \<Rightarrow> (case ss_minutos_por_dia_laboral ss of
                                   Some v \<Rightarrow> v | None \<Rightarrow> 540))
           in if mpd = 0 then Inl ZeroDivisionError
              else
                (let minutos_del_dia = m mod mpd in
                 if minutos_del_dia = 0 \<and> m > 0 then Inr hora_inicio
                 else
                   (let horas_agregadas = minutos_del_dia div 60;
                        minutos_agregados = minutos_del_dia mod 60;
                        hora0 = hour hora_inicio + horas_agregadas;
                        minuto0 = minute hora_inicio + minutos_agregados;
                        hora_del_dia_int = (if minuto0 \<ge> 60 then hora0 + 1 else hora0);
                        minuto_del_dia_int = (if minuto0 \<ge> 60 then minuto0 - 60 else minuto0);
                        hora_inicio_minutos = hour hora_inicio * 60 + minute hora_inicio;
                        hora_fin_minutos = hour hora_fin * 60 + minute hora_fin;
                        hora_calculada_minutos = hora_del_dia_int * 60 + minuto_del_dia_int
                    in if hora_calculada_minutos \<ge> hora_fin_minutos then Inr hora_fin
                       else if hora_calculada_minutos < hora_inicio_minutos then Inr hora_inicio
                       else if 0 \<le> hora_del_dia_int \<and> hora_del_dia_int \<le> 23 \<and>
                               0 \<le> minuto_del_dia_int \<and> minuto_del_dia_int \<le> 59
                            then Inr \<lparr>hour = hora_del_dia_int, minute = minuto_del_dia_int\<rparr>
                            else Inl ValueError))))"

text \<open>
  The end clock time of a part, as \<^verbatim>\<open>obtener_datos_programacion_detallada\<close>
  (lines 155 to 164), \<^verbatim>\<open>procesar_tareas_desde_bd\<close> (lines 273 to 279) and the
  table view (lines 2268 to 2275) compute it: the special case for an end on a day
  boundary, and \<^verbatim>\<open>minutos_a_hora_dia\<close> otherwise.
\<close>

definition fin_real_de_parte :: "session_state \<Rightarrow> int \<Rightarrow> int \<Rightarrow> py_error + dt_time" where
  "fin_real_de_parte ss fin_parte minutos_por_dia =
     (if minutos_por_dia = 0 then Inl ZeroDivisionError
      else if fin_parte > 0 \<and> fin_parte mod minutos_por_dia = 0
           then Inr \<lparr>hour = 18, minute = 0\<rparr>
           else minutos_a_hora_dia ss (Some fin_parte) (Some minutos_por_dia))"

text \<open>
  Example configuration: a shift from 08:00 to 17:00 with one hour of lunch, that is 480
  effective minutes per day.
\<close>

definition turno_8_a_17 :: session_state where
  "turno_8_a_17 = \<lparr>ss_hora_inicio = Some \<lparr>hour = 8, minute = 0\<rparr>,
                    ss_hora_fin = Some \<lparr>hour = 17, minute = 0\<rparr>,
                    ss_minutos_por_dia_laboral = Some 480\<rparr>"

section \<open>KPI calculator\<close>

text \<open>
  Source: \<^verbatim>\<open>utils/kpi_calculator.py\<close>. An execution record is a dictionary; a field
  read with \<^verbatim>\<open>get\<close> is missing, \<^verbatim>\<open>None\<close>, or a value. A planned clock
  time is a string: empty or missing, a string that
  \<^verbatim>\<open>_construir_datetime_planificado\<close> cannot read, or \<^verbatim>\<open>h:m\<close> with two
  integers. Real start and end are microseconds, as in the persistence layer, or
  \<open>None\<close> when missing or unreadable. The text of the problems found is the list of
  its code points.
\<close>

datatype 'a campo = Ausente | Nulo | Valor 'a

text \<open>
  \<^verbatim>\<open>e.get(k)\<close> and \<^verbatim>\<open>e.get(k, d)\<close>: the default stands in for a missing
  key only, not for a stored \<^verbatim>\<open>None\<close>.
\<close>

fun py_get :: "'a campo \<Rightarrow> 'a option" where
  "py_get (Valor v) = Some v"
| "py_get Nulo = None"
| "py_get Ausente = None"

fun py_get_defecto :: "'a \<Rightarrow> 'a campo \<Rightarrow> 'a option" where
  "py_get_defecto d (Valor v) = Some v"
| "py_get_defecto d Nulo = None"
| "py_get_defecto d Ausente = Some d"

datatype texto_hora = Sin_hora | Hora_ilegible | HM int int

record ejecucion =
  e_maquina_usada :: "string campo"
  e_maquina_planificada :: "string campo"
  e_duracion_real :: "int campo"
  e_duracion_planificada :: "int campo"
  e_tiempo_paradas :: "int campo"
  e_problemas_encontrados :: "nat list campo"
  e_inicio_hora :: texto_hora
  e_fin_hora :: texto_hora
  e_dia_semana :: "int option"
  e_inicio_real :: "int option"
  e_fin_real :: "int option"

record kpi_exporter =
  kpi_dias_laborales :: int
  kpi_minutos_por_dia :: int
  kpi_num_maquinas :: int

text \<open>
  Floating point. The KPIs are Python floats. Every operation on floats returns the
  rounding of its exact result, and the rounding function \<open>rd\<close> is a parameter of the
  functions of this section: \<open>a / b\<close> on two integers is \<open>rd (a / b)\<close>, rounded
  once, and an integer that meets a float in an operation is converted, which rounds it,
  first (the constants 60, 100 and 10000 are floats as they are). Sums and differences of
  integers are exact. What the properties below need of the rounding is
  \<open>redondeo_valido\<close>: it is monotone and returns 0, 1, 100, 10000 and 1000000 as they
  are. The rounding to nearest of binary floating point has these properties. Results
  beyond the range of the floats are not part of the model.
\<close>

definition redondeo_valido :: "(real \<Rightarrow> real) \<Rightarrow> bool" where
  "redondeo_valido rd =
     (mono rd \<and> rd 0 = 0 \<and> rd 1 = 1 \<and> rd 100 = 100 \<and> rd 10000 = 10000 \<and>
      rd 1000000 = 1000000)"

text \<open>
  The rounding at operations whose exact results are floats, as in the examples of this
  theory (halves and small integers): they are returned as they are.
\<close>

definition sin_redondeo :: "real \<Rightarrow> real" where
  "sin_redondeo x = x"

text \<open>
  \<^verbatim>\<open>timedelta.total_seconds()\<close>: the microseconds of the interval divided by
  \<open>10^6\<close>.
\<close>

definition total_seconds :: "(real \<Rightarrow> real) \<Rightarrow> int \<Rightarrow> real" where
  "total_seconds rd micros = rd (real_of_int micros / 1000000)"

text \<open>
  The truth value of \<^verbatim>\<open>semana_produccion\<close> and \<^verbatim>\<open>anio\<close> in a condition:
  neither \<^verbatim>\<open>None\<close> nor 0.
\<close>

definition verdadero :: "int option \<Rightarrow> bool" where
  "verdadero x = (case x of None \<Rightarrow> False | Some v \<Rightarrow> v \<noteq> 0)"

text \<open>
  \<^verbatim>\<open>_construir_datetime_planificado\<close>. Dates are proleptic Gregorian ordinals (1
  is 0001-01-01, 3652059 is 9999-12-31, the weekday of ordinal \<open>d\<close> is
  \<open>(d + 6) mod 7\<close> with Monday 0); the result is in minutes. Every exception of the
  source (a year outside 1..9999, a \<^verbatim>\<open>timedelta\<close> beyond 999999999 days, a date
  out of range, an hour or minute that \<^verbatim>\<open>time.replace\<close> rejects) is caught there
  and gives \<^verbatim>\<open>None\<close>.
\<close>

definition ordinal_4_enero :: "int \<Rightarrow> int" where
  "ordinal_4_enero y =
     (y - 1) * 365 + (y - 1) div 4 - (y - 1) div 100 + (y - 1) div 400 + 4"

definition fecha_en_rango :: "int \<Rightarrow> bool" where
  "fecha_en_rango d = (1 \<le> d \<and> d \<le> 3652059)"

definition construir_datetime_planificado ::
  "texto_hora \<Rightarrow> int \<Rightarrow> int \<Rightarrow> int \<Rightarrow> int option" where
  "construir_datetime_planificado hora dia_semana semana_prod anio_prod =
     (case hora of
        Sin_hora \<Rightarrow> None
      | Hora_ilegible \<Rightarrow> None
      | HM h m \<Rightarrow>
          if \<not> (1 \<le> anio_prod \<and> anio_prod \<le> 9999) then None
          else
            (let fecha_semana_1 = ordinal_4_enero anio_prod;
                 lunes_semana_1 = fecha_semana_1 - (fecha_semana_1 + 6) mod 7;
                 dias_semanas = 7 * (semana_prod - 1);
                 lunes_semana_produccion = lunes_semana_1 + dias_semanas;
                 fecha_completa = lunes_semana_produccion + dia_semana
             in if \<not> fecha_en_rango lunes_semana_1 \<or> \<bar>dias_semanas\<bar> > 999999999 \<or>
                   \<not> fecha_en_rango lunes_semana_produccion \<or> \<bar>dia_semana\<bar> > 999999999 \<or>
                   \<not> fecha_en_rango fecha_completa \<or>
                   \<not> (0 \<le> h \<and> h \<le> 23 \<and> 0 \<le> m \<and> m \<le> 59)
                then None
                else Some (fecha_completa * 1440 + h * 60 + m)))"

text \<open>
  The planned total duration of a record from its planned clock times, as the three KPI
  functions compute it (\<open>dur_plan_total\<close>,
  \<^verbatim>\<open>(fin_plan_dt - inicio_plan_dt).total_seconds() / 60\<close>), in minutes; \<open>None\<close>
  when a field is missing or a date cannot be built.
\<close>

definition duracion_plan_total ::
  "(real \<Rightarrow> real) \<Rightarrow> ejecucion \<Rightarrow> int option \<Rightarrow> int option \<Rightarrow> real option" where
  "duracion_plan_total rd ejec semana_prod anio_prod =
     (if e_inicio_hora ejec \<noteq> Sin_hora \<and> e_fin_hora ejec \<noteq> Sin_hora \<and>
         e_dia_semana ejec \<noteq> None \<and> verdadero semana_prod \<and> verdadero anio_prod
      then
        (case (construir_datetime_planificado (e_inicio_hora ejec) (the (e_dia_semana ejec))
                 (the semana_prod) (the anio_prod),
               construir_datetime_planificado (e_fin_hora ejec) (the (e_dia_semana ejec))
                 (the semana_prod) (the anio_prod)) of
           (Some inicio_plan_dt, Some fin_plan_dt) \<Rightarrow>
             Some (rd (total_seconds rd ((fin_plan_dt - inicio_plan_dt) * 60000000) / 60))
         | _ \<Rightarrow> None)
      else None)"

text \<open>
  \<^verbatim>\<open>sum(e.get(k, 0) for e in ejecuciones if e.get(k) is not None)\<close>.
\<close>

definition suma_campo :: "(ejecucion \<Rightarrow> int campo) \<Rightarrow> ejecucion list \<Rightarrow> int" where
  "suma_campo campo ejecuciones =
     sum_list (map (\<lambda>e. case py_get (campo e) of Some v \<Rightarrow> v | None \<Rightarrow> 0) ejecuciones)"

text \<open>
  \<^verbatim>\<open>_calcular_disponibilidad\<close>, \<^verbatim>\<open>_calcular_rendimiento\<close>,
  \<^verbatim>\<open>_calcular_calidad\<close> and \<^verbatim>\<open>calcular_oee\<close>.
\<close>

definition calcular_disponibilidad :: "(real \<Rightarrow> real) \<Rightarrow> ejecucion list \<Rightarrow> real" where
  "calcular_disponibilidad rd ejecuciones =
     (if ejecuciones = [] then 0
      else
        (let tiempo_planificado_total = suma_campo e_duracion_planificada ejecuciones;
             tiempo_paradas_total = suma_campo e_tiempo_paradas ejecuciones;
             tiempo_produccion_real = max 0 (tiempo_planificado_total - tiempo_paradas_total)
         in if tiempo_planificado_total > 0
            then min 100 (max 0 (rd (rd (real_of_int tiempo_produccion_real
                                           / real_of_int tiempo_planificado_total) * 100)))
            else 100))"

text \<open>
  The loop of \<^verbatim>\<open>_calcular_rendimiento\<close> that adds up the planned durations of the
  records with planned clock times: \<^verbatim>\<open>tiempo_planificado_total += dur_plan_total\<close>.
\<close>

definition suma_horas ::
  "(real \<Rightarrow> real) \<Rightarrow> ejecucion list \<Rightarrow> int option \<Rightarrow> int option \<Rightarrow> real" where
  "suma_horas rd ejecuciones semana_prod anio_prod =
     fold (\<lambda>ejec total. case duracion_plan_total rd ejec semana_prod anio_prod of
                           Some dur_plan_total \<Rightarrow> rd (total + dur_plan_total)
                         | None \<Rightarrow> total)
       ejecuciones 0"

definition calcular_rendimiento ::
  "(real \<Rightarrow> real) \<Rightarrow> ejecucion list \<Rightarrow> int option \<Rightarrow> int option \<Rightarrow> real" where
  "calcular_rendimiento rd ejecuciones semana_prod anio_prod =
     (if ejecuciones = [] then 0
      else
        (let tiempo_real_total = suma_campo e_duracion_real ejecuciones;
             desde_horas =
               (if verdadero semana_prod \<and> verdadero anio_prod
                then suma_horas rd ejecuciones semana_prod anio_prod
                else 0)
         in if desde_horas = 0
            then
              (let tiempo_planificado_total = suma_campo e_duracion_planificada ejecuciones
               in if tiempo_real_total > 0
                  then rd (rd (real_of_int tiempo_planificado_total
                                 / real_of_int tiempo_real_total) * 100)
                  else 100)
            else
              (if tiempo_real_total > 0
               then rd (rd (desde_horas / rd (real_of_int tiempo_real_total)) * 100)
               else 100)))"

text \<open>
  A task has no problems when the field is missing, \<^verbatim>\<open>None\<close>, empty, or a string
  that \<^verbatim>\<open>strip()\<close> empties. The white space of \<^verbatim>\<open>strip()\<close> is that of
  \<^verbatim>\<open>str.isspace\<close>: the code points 9 to 13, 28 to 32, U+0085, U+00A0, U+1680,
  U+2000 to U+200A, U+2028, U+2029, U+202F, U+205F and U+3000.
\<close>

definition es_blanco :: "nat \<Rightarrow> bool" where
  "es_blanco c =
     (c \<in> set ([9, 10, 11, 12, 13, 28, 29, 30, 31, 32, 0x85, 0xA0, 0x1680]
               @ [0x2000 ..< 0x200B] @ [0x2028, 0x2029, 0x202F, 0x205F, 0x3000]))"

definition sin_problemas :: "ejecucion \<Rightarrow> bool" where
  "sin_problemas e =
     (case py_get (e_problemas_encontrados e) of
        None \<Rightarrow> True
      | Some txt \<Rightarrow> txt = [] \<or> list_all es_blanco txt)"

definition calcular_calidad :: "(real \<Rightarrow> real) \<Rightarrow> ejecucion list \<Rightarrow> real" where
  "calcular_calidad rd ejecuciones =
     (if ejecuciones = [] then 0
      else
        (let total = length ejecuciones;
             tareas_sin_problemas = length (filter sin_problemas ejecuciones)
         in if total > 0 then rd (rd (real tareas_sin_problemas / real total) * 100)
            else 100))"

definition calcular_oee :: "(real \<Rightarrow> real) \<Rightarrow> real \<Rightarrow> real \<Rightarrow> real \<Rightarrow> real" where
  "calcular_oee rd disponibilidad rendimiento calidad =
     rd (rd (rd (disponibilidad * rendimiento) * calidad) / 10000)"

text \<open>
  \<^verbatim>\<open>calcular_cumplimiento_plazos\<close>: the deviation of one record
  (\<^verbatim>\<open>ejec.get('tiempo_paradas', 0) or 0\<close>, the duration from the planned clock times
  first, the stored durations as fallback, 0 when nothing is known), then the counts.
  The comparisons of a float with the integer tolerance are exact.
\<close>

definition paradas_o_cero :: "ejecucion \<Rightarrow> int" where
  "paradas_o_cero e = (case py_get_defecto 0 (e_tiempo_paradas e) of Some v \<Rightarrow> v | None \<Rightarrow> 0)"

definition desviacion_tarea ::
  "(real \<Rightarrow> real) \<Rightarrow> ejecucion \<Rightarrow> int option \<Rightarrow> int option \<Rightarrow> real" where
  "desviacion_tarea rd ejec semana_prod anio_prod =
     (let dur_real_bd = py_get (e_duracion_real ejec);
          tiempo_paradas = paradas_o_cero ejec;
          desv1 =
            (case duracion_plan_total rd ejec semana_prod anio_prod of
               None \<Rightarrow> None
             | Some dur_plan_total \<Rightarrow>
                 (case dur_real_bd of
                    Some d \<Rightarrow>
                      Some (rd (rd (real_of_int (max 0 (d - tiempo_paradas))) - dur_plan_total))
                  | None \<Rightarrow>
                      (case (e_inicio_real ejec, e_fin_real ejec) of
                         (Some i, Some f) \<Rightarrow>
                           (let dur_real_total = rd (total_seconds rd (f - i) / 60);
                                dur_real_sin_paradas =
                                  max 0 (rd (dur_real_total - rd (real_of_int tiempo_paradas)))
                            in Some (rd (dur_real_sin_paradas - dur_plan_total)))
                       | _ \<Rightarrow> None)));
          desv2 =
            (case desv1 of
               Some d \<Rightarrow> Some d
             | None \<Rightarrow>
                 (case (py_get (e_duracion_planificada ejec), dur_real_bd) of
                    (Some dur_plan_bd, Some d) \<Rightarrow>
                      Some (real_of_int (max 0 (d - tiempo_paradas) - dur_plan_bd))
                  | _ \<Rightarrow> None))
      in case desv2 of Some d \<Rightarrow> d | None \<Rightarrow> 0)"

record cumplimiento =
  otif_porcentaje :: real
  tareas_a_tiempo :: nat
  tareas_retrasadas :: nat
  tareas_adelantadas :: nat
  total_tareas :: nat
  tolerancia_usada :: int

definition calcular_cumplimiento_plazos ::
  "(real \<Rightarrow> real) \<Rightarrow> ejecucion list \<Rightarrow> int \<Rightarrow> int option \<Rightarrow> int option \<Rightarrow> cumplimiento" where
  "calcular_cumplimiento_plazos rd ejecuciones tolerancia_minutos semana_prod anio_prod =
     (if ejecuciones = [] then
        \<lparr>otif_porcentaje = 0, tareas_a_tiempo = 0, tareas_retrasadas = 0,
         tareas_adelantadas = 0, total_tareas = 0, tolerancia_usada = tolerancia_minutos\<rparr>
      else
        (let total = length ejecuciones;
             desvs = map (\<lambda>e. desviacion_tarea rd e semana_prod anio_prod) ejecuciones;
             tol = real_of_int tolerancia_minutos;
             a_tiempo = length (filter (\<lambda>d. d = 0 \<or> \<bar>d\<bar> \<le> tol) desvs);
             retrasadas = length (filter (\<lambda>d. \<not> (d = 0 \<or> \<bar>d\<bar> \<le> tol) \<and> d > tol) desvs);
             adelantadas = length (filter (\<lambda>d. \<not> (d = 0 \<or> \<bar>d\<bar> \<le> tol) \<and> \<not> d > tol) desvs)
         in \<lparr>otif_porcentaje =
               (if total > 0 then rd (rd (real a_tiempo / real total) * 100) else 0),
             tareas_a_tiempo = a_tiempo, tareas_retrasadas = retrasadas,
             tareas_adelantadas = adelantadas, total_tareas = total,
             tolerancia_usada = tolerancia_minutos\<rparr>))"

record acumulado =
  ac_tiempo_productivo :: int
  ac_tiempo_planificado :: int
  ac_tiempo_setup :: int
  ac_num_tareas :: int

record datos_maquina =
  tiempo_productivo :: int
  tiempo_planificado :: int
  tiempo_setup :: int
  num_tareas :: int
  eficiencia :: real
  tiempo_ocioso :: int
  tiempo_total :: int
  utilizacion_total :: real
  utilizacion_productiva :: real
  utilizacion_setup :: real
  utilizacion_ociosa :: real

text \<open>
  \<^verbatim>\<open>calcular_eficiencia_machines\<close>. The dictionary \<^verbatim>\<open>maquinas\<close> is the list
  of its items in insertion order. The machine of a record is
  \<^verbatim>\<open>maquina_usada or maquina_planificada\<close>; a record without one is skipped. Adding
  a stored \<^verbatim>\<open>None\<close> to a total raises \<^verbatim>\<open>TypeError\<close>.
\<close>

definition texto_no_vacio :: "string campo \<Rightarrow> string option" where
  "texto_no_vacio c = (case py_get c of Some s \<Rightarrow> if s = [] then None else Some s | None \<Rightarrow> None)"

definition maquina_de :: "ejecucion \<Rightarrow> string option" where
  "maquina_de ejec =
     (case texto_no_vacio (e_maquina_usada ejec) of
        Some maq \<Rightarrow> Some maq
      | None \<Rightarrow> texto_no_vacio (e_maquina_planificada ejec))"

fun acumular_maquinas ::
  "ejecucion list \<Rightarrow> (string \<times> acumulado) list \<Rightarrow> py_error + (string \<times> acumulado) list" where
  "acumular_maquinas [] maquinas = Inr maquinas"
| "acumular_maquinas (ejec # resto) maquinas =
     (case maquina_de ejec of
        None \<Rightarrow> acumular_maquinas resto maquinas
      | Some maq \<Rightarrow>
          (let maquinas1 =
                 (if maq \<notin> set (map fst maquinas)
                  then maquinas @ [(maq, \<lparr>ac_tiempo_productivo = 0, ac_tiempo_planificado = 0,
                                           ac_tiempo_setup = 0, ac_num_tareas = 0\<rparr>)]
                  else maquinas)
           in case (py_get_defecto 0 (e_duracion_real ejec),
                    py_get_defecto 0 (e_duracion_planificada ejec),
                    py_get_defecto 0 (e_tiempo_paradas ejec)) of
                (Some dur_real, Some dur_plan, Some paradas) \<Rightarrow>
                  acumular_maquinas resto
                    (actualizar_fila (\<lambda>fila. fst fila = maq)
                       (\<lambda>fila. (fst fila,
                          (snd fila)\<lparr>ac_tiempo_productivo := ac_tiempo_productivo (snd fila) + dur_real,
                                     ac_tiempo_planificado := ac_tiempo_planificado (snd fila) + dur_plan,
                                     ac_tiempo_setup := ac_tiempo_setup (snd fila) + paradas,
                                     ac_num_tareas := ac_num_tareas (snd fila) + 1\<rparr>))
                       maquinas1)
              | _ \<Rightarrow> Inl TypeError))"

definition datos_de_maquina :: "(real \<Rightarrow> real) \<Rightarrow> int \<Rightarrow> acumulado \<Rightarrow> datos_maquina" where
  "datos_de_maquina rd tiempo_disponible_maq ac =
     (let ocioso = max 0 (tiempo_disponible_maq - ac_tiempo_productivo ac - ac_tiempo_setup ac)
      in \<lparr>tiempo_productivo = ac_tiempo_productivo ac,
          tiempo_planificado = ac_tiempo_planificado ac,
          tiempo_setup = ac_tiempo_setup ac,
          num_tareas = ac_num_tareas ac,
          eficiencia = (if ac_tiempo_productivo ac > 0
                        then rd (rd (real_of_int (ac_tiempo_planificado ac)
                                       / real_of_int (ac_tiempo_productivo ac)) * 100)
                        else 100),
          tiempo_ocioso = ocioso,
          tiempo_total = tiempo_disponible_maq,
          utilizacion_total =
            (if tiempo_disponible_maq > 0
             then rd (rd (real_of_int (ac_tiempo_productivo ac + ac_tiempo_setup ac)
                            / real_of_int tiempo_disponible_maq) * 100)
             else 0),
          utilizacion_productiva =
            (if tiempo_disponible_maq > 0
             then rd (rd (real_of_int (ac_tiempo_productivo ac)
                            / real_of_int tiempo_disponible_maq) * 100)
             else 0),
          utilizacion_setup =
            (if tiempo_disponible_maq > 0
             then rd (rd (real_of_int (ac_tiempo_setup ac)
                            / real_of_int tiempo_disponible_maq) * 100)
             else 0),
          utilizacion_ociosa =
            (if tiempo_disponible_maq > 0
             then rd (rd (real_of_int ocioso / real_of_int tiempo_disponible_maq) * 100)
             else 100)\<rparr>)"

definition calcular_eficiencia_machines ::
  "(real \<Rightarrow> real) \<Rightarrow> kpi_exporter \<Rightarrow> ejecucion list
     \<Rightarrow> py_error + (string \<times> datos_maquina) list" where
  "calcular_eficiencia_machines rd calc ejecuciones =
     (if ejecuciones = [] then Inr []
      else
        (case acumular_maquinas ejecuciones [] of
           Inl err \<Rightarrow> Inl err
         | Inr maquinas \<Rightarrow>
             Inr (map (\<lambda>fila. (fst fila,
                          datos_de_maquina rd (kpi_dias_laborales calc * kpi_minutos_por_dia calc)
                            (snd fila)))
                    maquinas)))"

text \<open>
  Records without negative planned durations: the stored planned duration is not
  negative and the planned end clock time is not before the planned start. Records
  without negative real durations and stops.
\<close>

definition plan_no_negativo :: "ejecucion \<Rightarrow> bool" where
  "plan_no_negativo e =
     ((case e_duracion_planificada e of Valor v \<Rightarrow> 0 \<le> v | _ \<Rightarrow> True) \<and>
      (case (e_inicio_hora e, e_fin_hora e) of
         (HM h1 m1, HM h2 m2) \<Rightarrow> h1 * 60 + m1 \<le> h2 * 60 + m2
       | _ \<Rightarrow> True))"

definition real_no_negativo :: "ejecucion \<Rightarrow> bool" where
  "real_no_negativo e =
     ((case e_duracion_real e of Valor v \<Rightarrow> 0 \<le> v | _ \<Rightarrow> True) \<and>
      (case e_tiempo_paradas e of Valor v \<Rightarrow> 0 \<le> v | _ \<Rightarrow> True))"

text \<open>
  The capacity of a machine, \<^verbatim>\<open>dias_laborales * minutos_por_dia\<close>, and the total
  utilization of every machine of the result.
\<close>

definition capacidad_maquina :: "kpi_exporter \<Rightarrow> int" where
  "capacidad_maquina calc = kpi_dias_laborales calc * kpi_minutos_por_dia calc"

definition utilizaciones ::
  "(real \<Rightarrow> real) \<Rightarrow> kpi_exporter \<Rightarrow> ejecucion list \<Rightarrow> py_error + (string \<times> real) list" where
  "utilizaciones rd calc ejecuciones =
     map_sum id (map (\<lambda>fila. (fst fila, utilizacion_total (snd fila))))
       (calcular_eficiencia_machines rd calc ejecuciones)"

text \<open>
  Example data: a record of machine M1 with a real and a planned duration and no other
  field, and the calculator with its default configuration.
\<close>

definition ejecucion_ejemplo :: "int \<Rightarrow> int \<Rightarrow> ejecucion" where
  "ejecucion_ejemplo dur_real dur_plan =
     \<lparr>e_maquina_usada = Valor ''M1'', e_maquina_planificada = Ausente,
      e_duracion_real = Valor dur_real, e_duracion_planificada = Valor dur_plan,
      e_tiempo_paradas = Ausente, e_problemas_encontrados = Ausente,
      e_inicio_hora = Sin_hora, e_fin_hora = Sin_hora, e_dia_semana = None,
      e_inicio_real = None, e_fin_real = None\<rparr>"

definition calculadora_ejemplo :: kpi_exporter where
  "calculadora_ejemplo = \<lparr>kpi_dias_laborales = 5, kpi_minutos_por_dia = 600, kpi_num_maquinas = 3\<rparr>"

definition ac_no_negativo :: "acumulado \<Rightarrow> bool" where
  "ac_no_negativo a = (0 \<le> ac_tiempo_productivo a \<and> 0 \<le> ac_tiempo_setup a)"

subsection \<open>Properties of the split\<close>

lemma dividir_loop_cadena:
  assumes "0 < mpd" "t \<le> fin"
  shows "\<exists>ps. dividir_loop t fin mpd n acc = Some (acc @ ps) \<and> cadena mpd fin t n ps"
  using assms
proof (induction "nat (fin - t)" arbitrary: t n acc rule: less_induct)
  case less
  show ?case
  proof (cases "t < fin")
    case False
    with less.prems have "t = fin" by simp
    then show ?thesis by (subst dividir_loop.simps) simp
  next
    case True
    define fp where "fp = min ((t div mpd + 1) * mpd) fin"
    define p where "p = \<lparr>p_inicio = t, p_fin = fp, p_duracion = fp - t,
                           p_es_dividida = True, p_parte_numero = n\<rparr>"
    have eq: "t = (t div mpd) * mpd + t mod mpd" by simp
    have m0: "0 \<le> t mod mpd" and m1: "t mod mpd < mpd"
      using less.prems(1) by simp_all
    have ex: "(t div mpd + 1) * mpd = (t div mpd) * mpd + mpd"
      by (simp add: algebra_simps)
    have lo: "(t div mpd) * mpd \<le> t" using eq m0 by linarith
    have "t < (t div mpd + 1) * mpd" using eq m1 ex by linarith
    with True have gt: "t < fp" by (simp add: fp_def)
    have le: "fp \<le> fin" by (simp add: fp_def)
    have hi: "fp \<le> (t div mpd + 1) * mpd" by (simp add: fp_def)
    from gt le have "nat (fin - fp) < nat (fin - t)" by linarith
    from less.hyps [OF this less.prems(1) le, of "n + 1" "acc @ [p]"]
    obtain ps where ps: "dividir_loop fp fin mpd (n + 1) (acc @ [p]) = Some ((acc @ [p]) @ ps)"
      and ch: "cadena mpd fin fp (n + 1) ps" by blast
    have "dividir_loop t fin mpd n acc = dividir_loop fp fin mpd (n + 1) (acc @ [p])"
      using True by (subst dividir_loop.simps) (simp add: Let_def fp_def p_def)
    with ps have "dividir_loop t fin mpd n acc = Some (acc @ (p # ps))" by simp
    moreover have "cadena mpd fin t n (p # ps)"
      using ch gt le hi lo by (simp add: p_def)
    ultimately show ?thesis by blast
  qed
qed


lemma cadena_suma: "cadena mpd fin t n ps \<Longrightarrow> sum_list (map p_duracion ps) = fin - t"
  by (induction ps arbitrary: t n) auto

lemma cadena_numeros:
  "cadena mpd fin t n ps \<Longrightarrow> i < length ps \<Longrightarrow> p_parte_numero (ps ! i) = n + int i"
proof (induction ps arbitrary: t n i)
  case Nil
  then show ?case by simp
next
  case (Cons p ps)
  then show ?case by (cases i) auto
qed

lemma cadena_hd: "cadena mpd fin t n (p # ps) \<Longrightarrow> p_inicio p = t"
  by simp

lemma cadena_contigua:
  "cadena mpd fin t n ps \<Longrightarrow> Suc i < length ps \<Longrightarrow> p_fin (ps ! i) = p_inicio (ps ! Suc i)"
proof (induction ps arbitrary: t n i)
  case Nil
  then show ?case by simp
next
  case (Cons p ps)
  show ?case
  proof (cases i)
    case 0
    with Cons.prems obtain q qs where "ps = q # qs" by (cases ps) auto
    with Cons.prems 0 show ?thesis by simp
  next
    case (Suc j)
    with Cons.prems Cons.IH [of "p_fin p" "n + 1" j] show ?thesis by simp
  qed
qed

lemma cadena_ventana:
  "cadena mpd fin t n ps \<Longrightarrow> p \<in> set ps \<Longrightarrow>
     (p_inicio p div mpd) * mpd \<le> p_inicio p \<and> p_inicio p < p_fin p \<and>
     p_fin p \<le> (p_inicio p div mpd + 1) * mpd \<and>
     p_duracion p = p_fin p - p_inicio p \<and> p_es_dividida p"
  by (induction ps arbitrary: t n) auto

lemma cadena_last: "cadena mpd fin t n ps \<Longrightarrow> ps \<noteq> [] \<Longrightarrow> p_fin (last ps) = fin"
  by (induction ps arbitrary: t n) auto

lemma div_en_dia:
  fixes k :: int
  assumes "0 < mpd" "k * mpd \<le> x" "x < (k + 1) * mpd"
  shows "x div mpd = k"
proof -
  define r where "r = x - k * mpd"
  have "0 \<le> r" "r < mpd" using assms by (simp_all add: r_def algebra_simps)
  moreover have "x = r + k * mpd" by (simp add: r_def)
  ultimately show ?thesis by (simp add: div_pos_pos_trivial)
qed

text \<open>
  The splitter on integer day lengths (claim C6 speaks of every positive day length; see
  also the note on floating point day lengths below). For every assignment with
  \<open>fin \<ge> inicio\<close> and every positive integer \<open>minutos_por_dia\<close>,
  \<^verbatim>\<open>dividir_tarea_en_partes\<close> returns (it neither raises nor loops). The list of
  parts is not empty, its first part starts at \<open>inicio\<close> and its last part ends at
  \<open>fin\<close>; the parts are contiguous (each part's \<open>fin\<close> is the next part's
  \<open>inicio\<close>); each part lies in the day window
  \<open>[k * minutos_por_dia, (k + 1) * minutos_por_dia]\<close> of the day \<open>k\<close> of its start and
  has \<open>duracion = fin - inicio\<close>; \<open>parte_numero\<close> counts 1, 2, 3, ...; and the
  durations add up to \<open>fin - inicio\<close> of the assignment.
\<close>

theorem dividir_tarea_en_partes_partes:
  assumes "0 < mpd" and "asig_inicio a \<le> asig_fin a"
  shows "\<exists>ps. dividir_tarea_en_partes a mpd = Some (Inr ps) \<and>
           ps \<noteq> [] \<and> p_inicio (hd ps) = asig_inicio a \<and> p_fin (last ps) = asig_fin a \<and>
           (\<forall>i. Suc i < length ps \<longrightarrow> p_fin (ps ! i) = p_inicio (ps ! Suc i)) \<and>
           (\<forall>p \<in> set ps. (p_inicio p div mpd) * mpd \<le> p_inicio p \<and> p_inicio p \<le> p_fin p \<and>
                          p_fin p \<le> (p_inicio p div mpd + 1) * mpd \<and>
                          p_duracion p = p_fin p - p_inicio p) \<and>
           (\<forall>i < length ps. p_parte_numero (ps ! i) = int i + 1) \<and>
           sum_list (map p_duracion ps) = asig_fin a - asig_inicio a"
proof (cases "asig_inicio a div mpd = asig_fin a div mpd")
  case True
  define x where "x = asig_inicio a"
  define y where "y = asig_fin a"
  have eq: "x = (x div mpd) * mpd + x mod mpd" "y = (y div mpd) * mpd + y mod mpd" by simp_all
  have m: "0 \<le> x mod mpd" "y mod mpd < mpd" using assms(1) by simp_all
  have ex: "(x div mpd + 1) * mpd = (x div mpd) * mpd + mpd" by (simp add: algebra_simps)
  have lo: "(x div mpd) * mpd \<le> x" using eq(1) m(1) by linarith
  have xy: "x div mpd = y div mpd" using True by (simp add: x_def y_def)
  have "y \<le> (y div mpd) * mpd + mpd" using eq(2) m(2) by linarith
  then have hi: "y \<le> (x div mpd + 1) * mpd" using ex xy by simp
  have "dividir_tarea_en_partes a mpd =
          Some (Inr [\<lparr>p_inicio = x, p_fin = y, p_duracion = y - x,
                       p_es_dividida = False, p_parte_numero = 1\<rparr>])"
    using True assms(1) by (simp add: dividir_tarea_en_partes_def Let_def x_def y_def)
  then show ?thesis using lo hi assms(2) by (simp add: x_def y_def)
next
  case False
  from dividir_loop_cadena [OF assms, of 1 "[]"]
  obtain ps where ps: "dividir_loop (asig_inicio a) (asig_fin a) mpd 1 [] = Some ps"
    and ch: "cadena mpd (asig_fin a) (asig_inicio a) 1 ps" by auto
  from False have ne: "asig_inicio a \<noteq> asig_fin a" by auto
  with ch obtain q qs where q: "ps = q # qs" by (cases ps) auto
  have "dividir_tarea_en_partes a mpd = Some (Inr ps)"
    using False assms(1) ps by (simp add: dividir_tarea_en_partes_def Let_def)
  moreover have "ps \<noteq> []" using q by simp
  moreover have "p_inicio (hd ps) = asig_inicio a"
    using cadena_hd [of mpd "asig_fin a" "asig_inicio a" 1 q qs] ch q by simp
  moreover have "p_fin (last ps) = asig_fin a"
    using cadena_last [OF ch] q by simp
  moreover have "\<forall>i. Suc i < length ps \<longrightarrow> p_fin (ps ! i) = p_inicio (ps ! Suc i)"
    using cadena_contigua [OF ch] by blast
  moreover have "\<forall>p \<in> set ps. (p_inicio p div mpd) * mpd \<le> p_inicio p \<and> p_inicio p \<le> p_fin p \<and>
                          p_fin p \<le> (p_inicio p div mpd + 1) * mpd \<and>
                          p_duracion p = p_fin p - p_inicio p"
    using cadena_ventana [OF ch] by fastforce
  moreover have "\<forall>i < length ps. p_parte_numero (ps ! i) = int i + 1"
    using cadena_numeros [OF ch] by (simp add: add.commute)
  moreover have "sum_list (map p_duracion ps) = asig_fin a - asig_inicio a"
    using cadena_suma [OF ch] .
  ultimately show ?thesis by blast
qed

theorem dividir_tarea_en_partes_partes_witness:
  "(0::int) < 540 \<and>
   asig_inicio \<lparr>asig_inicio = 500, asig_fin = 1100\<rparr> \<le> asig_fin \<lparr>asig_inicio = 500, asig_fin = 1100\<rparr> \<and>
   (\<exists>ps. dividir_tarea_en_partes \<lparr>asig_inicio = 500, asig_fin = 1100\<rparr> 540 = Some (Inr ps) \<and>
      ps \<noteq> [] \<and> p_inicio (hd ps) = 500 \<and> p_fin (last ps) = 1100 \<and>
      (\<forall>i. Suc i < length ps \<longrightarrow> p_fin (ps ! i) = p_inicio (ps ! Suc i)) \<and>
      (\<forall>p \<in> set ps. (p_inicio p div 540) * 540 \<le> p_inicio p \<and> p_inicio p \<le> p_fin p \<and>
                     p_fin p \<le> (p_inicio p div 540 + 1) * 540 \<and>
                     p_duracion p = p_fin p - p_inicio p) \<and>
      (\<forall>i < length ps. p_parte_numero (ps ! i) = int i + 1) \<and>
      sum_list (map p_duracion ps) = 600)"
proof -
  have h1: "(0::int) < 540" by simp
  have h2: "asig_inicio \<lparr>asig_inicio = 500, asig_fin = 1100\<rparr> \<le> asig_fin \<lparr>asig_inicio = 500, asig_fin = 1100\<rparr>"
    by simp
  from dividir_tarea_en_partes_partes [OF h1 h2] h1 h2 show ?thesis by simp
qed

text \<open>
  Floating point day lengths. The callers pass \<^verbatim>\<open>minutos_por_dia\<close> as stored in
  the configuration, \<^verbatim>\<open>horas_efectivas * 60\<close>, a float. For a shift from 07:00 to
  15:10 with one hour of lunch it is 429.99999999999994. With the cursor at
  1289.9999999999998, the rounded value of three such days, the floor division gives day
  2 again, the end of that day is the cursor itself, and the loop of the source appends
  empty parts for ever. The theorems of this section are about integer day lengths, on
  which the arithmetic of the source is exact.
\<close>

text \<open>
  The day-crossing scenario of the specification: one task of 600 minutes starting at 0
  with 540 effective minutes per day gives the parts \<open>[0, 540]\<close> and \<open>[540, 600]\<close>.
\<close>

lemma dividir_tarea_en_partes_S2:
  "dividir_tarea_en_partes \<lparr>asig_inicio = 0, asig_fin = 600\<rparr> 540 =
     Some (Inr [\<lparr>p_inicio = 0, p_fin = 540, p_duracion = 540, p_es_dividida = True,
                  p_parte_numero = 1\<rparr>,
                \<lparr>p_inicio = 540, p_fin = 600, p_duracion = 60, p_es_dividida = True,
                  p_parte_numero = 2\<rparr>])"
  by code_simp

text \<open>
  Claim C10. An assignment that starts in day \<open>k\<close> (at or after \<open>k * minutos_por_dia\<close>
  and before the end of that day) and ends exactly at the boundary
  \<open>(k + 1) * minutos_por_dia\<close> takes the split branch: the result is exactly one part
  covering the whole interval, with \<open>es_dividida = True\<close> and \<open>parte_numero = 1\<close>.
\<close>

theorem dividir_tarea_en_partes_fin_en_limite:
  assumes "0 < mpd" and "k * mpd \<le> ini" and "ini < (k + 1) * mpd"
  shows "dividir_tarea_en_partes \<lparr>asig_inicio = ini, asig_fin = (k + 1) * mpd\<rparr> mpd =
           Some (Inr [\<lparr>p_inicio = ini, p_fin = (k + 1) * mpd,
                        p_duracion = (k + 1) * mpd - ini,
                        p_es_dividida = True, p_parte_numero = 1\<rparr>])"
proof -
  have d1: "ini div mpd = k" using assms by (rule div_en_dia)
  have d2: "((k + 1) * mpd) div mpd = k + 1" using assms(1) by simp
  have l2: "dividir_loop ((k + 1) * mpd) ((k + 1) * mpd) mpd 2 xs = Some xs" for xs
    by (subst dividir_loop.simps) simp
  have "dividir_loop ini ((k + 1) * mpd) mpd 1 [] =
          Some [\<lparr>p_inicio = ini, p_fin = (k + 1) * mpd, p_duracion = (k + 1) * mpd - ini,
                  p_es_dividida = True, p_parte_numero = 1\<rparr>]"
    using assms(3) by (subst dividir_loop.simps) (simp add: Let_def d1 l2)
  then show ?thesis using assms(1) d1 d2
    by (simp add: dividir_tarea_en_partes_def Let_def)
qed


theorem dividir_tarea_en_partes_fin_en_limite_witness:
  "(0::int) < 540 \<and> 1 * 540 \<le> (700::int) \<and> (700::int) < (1 + 1) * 540 \<and>
   dividir_tarea_en_partes \<lparr>asig_inicio = 700, asig_fin = (1 + 1) * 540\<rparr> 540 =
     Some (Inr [\<lparr>p_inicio = 700, p_fin = (1 + 1) * 540, p_duracion = (1 + 1) * 540 - 700,
                  p_es_dividida = True, p_parte_numero = 1\<rparr>])"
proof -
  have h1: "(0::int) < 540" by simp
  have h2: "1 * 540 \<le> (700::int)" by simp
  have h3: "(700::int) < (1 + 1) * 540" by simp
  from dividir_tarea_en_partes_fin_en_limite [OF h1 h2 h3] h1 h2 h3 show ?thesis by blast
qed

section \<open>Properties of the lifecycle manager\<close>

lemma find_actualizar_fila:
  "(\<And>x. P x \<Longrightarrow> P (f x)) \<Longrightarrow> find P (actualizar_fila P f xs) = map_option f (find P xs)"
  by (induction xs) auto

lemma length_actualizar_fila: "length (actualizar_fila P f xs) = length xs"
  by (induction xs) auto

lemma find_eliminar_fila_distinct:
  "distinct (map k xs) \<Longrightarrow> find (\<lambda>x. k x = v) (eliminar_fila (\<lambda>x. k x = v) xs) = None"
proof (induction xs)
  case Nil
  then show ?case by simp
next
  case (Cons x xs)
  show ?case
  proof (cases "k x = v")
    case True
    with Cons.prems have "\<forall>y \<in> set xs. k y \<noteq> v" by (auto simp: image_iff)
    then have "find (\<lambda>x. k x = v) xs = None" by (simp add: find_None_iff)
    with True show ?thesis by simp
  next
    case False
    with Cons show ?thesis by simp
  qed
qed

lemma length_eliminar_fila:
  "find P xs = Some x \<Longrightarrow> length (eliminar_fila P xs) + 1 = length xs"
  by (induction xs) (auto split: if_splits)


subsection \<open>Transitions\<close>

text \<open>
  What \<^verbatim>\<open>cambiar_estado_programacion\<close> does on an existing programacion: it
  succeeds exactly for the transitions of its table, each of which moves forward; a
  rejected call carries one of the two error messages and returns the database as it was.
\<close>

lemma transiciones_validas_orden:
  "n \<in> set (transiciones_validas e) \<Longrightarrow> orden_ciclo e < orden_ciclo n"
  by (cases e) auto

lemma cambiar_estado_programacion_monotono:
  assumes "estado_de db pid = Some e"
  shows "case cambiar_estado_programacion db pid nuevo usuario ahora of
           (db', ok, m) \<Rightarrow>
             (ok \<longleftrightarrow> nuevo \<in> set (transiciones_validas e)) \<and>
             (ok \<longrightarrow> estado_de db' pid = Some nuevo \<and> orden_ciclo e < orden_ciclo nuevo) \<and>
             (\<not> ok \<longrightarrow> db' = db \<and>
                (m = Estado_no_modificable e \<or>
                 m = Transicion_invalida e nuevo (transiciones_validas e)))"
proof -
  from assms obtain prog where f: "find (\<lambda>p. prog_id p = pid) (programaciones db) = Some prog"
    and e: "estado prog = e" by (auto simp: estado_de_def)
  show ?thesis
  proof (cases "nuevo \<in> set (transiciones_validas e)")
    case False
    with f e show ?thesis by (simp add: cambiar_estado_programacion_def Let_def)
  next
    case True
    have "find (\<lambda>p. prog_id p = pid)
            (actualizar_fila (\<lambda>p. prog_id p = pid) g (programaciones db)) = Some (g prog)"
      if "\<And>x. prog_id (g x) = prog_id x" for g
      using f that by (simp add: find_actualizar_fila)
    then show ?thesis using True f e transiciones_validas_orden [OF True]
      by (simp add: cambiar_estado_programacion_def Let_def estado_de_def)
  qed
qed

lemma cambiar_estado_programacion_terminal:
  assumes "estado_de db pid = Some e" and "e = COMPLETADA \<or> e = CANCELADA"
  shows "cambiar_estado_programacion db pid nuevo usuario ahora = (db, False, Estado_no_modificable e)"
  using assms by (auto simp: cambiar_estado_programacion_def Let_def estado_de_def)


text \<open>
  Claim C2, at the input where the code departs from it. A programacion in
  \<open>completada\<close> is handed to \<^verbatim>\<open>aprobar_programacion\<close>: the call returns
  \<open>True\<close> and the stored state is \<open>planificada\<close> afterwards, which is a move
  backwards out of a terminal state. The same request through
  \<^verbatim>\<open>cambiar_estado_programacion\<close> is rejected.
\<close>

theorem aprobar_programacion_desde_completada:
  "estado_de (bd_ejemplo COMPLETADA SIMULACION) ''PROG-2025-W42-001'' = Some COMPLETADA \<and>
   snd (aprobar_programacion (bd_ejemplo COMPLETADA SIMULACION) ''PROG-2025-W42-001'' ''Luis'' 1) \<and>
   estado_de (fst (aprobar_programacion (bd_ejemplo COMPLETADA SIMULACION)
                     ''PROG-2025-W42-001'' ''Luis'' 1)) ''PROG-2025-W42-001''
     = Some PLANIFICADA \<and>
   cambiar_estado_programacion (bd_ejemplo COMPLETADA SIMULACION) ''PROG-2025-W42-001''
       PLANIFICADA (Some ''Luis'') 1
     = (bd_ejemplo COMPLETADA SIMULACION, False, Estado_no_modificable COMPLETADA)"
  by (simp add: aprobar_programacion_def cambiar_estado_programacion_def estado_de_def
        bd_ejemplo_def prog_ejemplo_def)

subsection \<open>Deletion\<close>

text \<open>
  Claim C3 as the code has it. For an existing programacion,
  \<^verbatim>\<open>eliminar_programacion\<close> succeeds exactly when \<open>forzar\<close> is set or the state is
  \<open>simulacion\<close> or \<open>cancelada\<close>: without the flag only those two states are deleted,
  and with the flag every state is, \<open>en_ejecucion\<close> and \<open>completada\<close> included. A
  refused call returns the database unchanged; a successful one removes the row.
\<close>

theorem eliminar_programacion_politica:
  assumes "find (\<lambda>p. prog_id p = pid) (programaciones db) = Some prog"
    and "distinct (map prog_id (programaciones db))"
  shows "case eliminar_programacion db pid forzar of
           (db', ok, m) \<Rightarrow>
             (ok \<longleftrightarrow> forzar \<or> estado prog = SIMULACION \<or> estado prog = CANCELADA) \<and>
             (\<not> ok \<longrightarrow> db' = db \<and> m = No_se_puede_eliminar (estado prog)) \<and>
             (ok \<longrightarrow> estado_de db' pid = None \<and>
                    length (programaciones db') + 1 = length (programaciones db))"
proof (cases "\<not> forzar \<and> estado prog \<in> set [PLANIFICADA, EN_EJECUCION, COMPLETADA]")
  case True
  with assms(1) show ?thesis by (auto simp: eliminar_programacion_def)
next
  case False
  then have ok: "forzar \<or> estado prog = SIMULACION \<or> estado prog = CANCELADA"
    by (cases "estado prog") auto
  have "find (\<lambda>p. prog_id p = pid) (eliminar_fila (\<lambda>p. prog_id p = pid) (programaciones db)) = None"
    using assms(2) by (rule find_eliminar_fila_distinct)
  moreover have "length (eliminar_fila (\<lambda>p. prog_id p = pid) (programaciones db)) + 1
                   = length (programaciones db)"
    using assms(1) by (rule length_eliminar_fila)
  ultimately show ?thesis using False ok assms(1)
    by (simp add: eliminar_programacion_def Let_def estado_de_def)
qed



theorem eliminar_programacion_politica_witness:
  "find (\<lambda>p. prog_id p = ''PROG-2025-W42-001'') (programaciones (bd_ejemplo PLANIFICADA SIMULACION))
     = Some (prog_ejemplo ''PROG-2025-W42-001'' 42 PLANIFICADA) \<and>
   distinct (map prog_id (programaciones (bd_ejemplo PLANIFICADA SIMULACION))) \<and>
   (case eliminar_programacion (bd_ejemplo PLANIFICADA SIMULACION) ''PROG-2025-W42-001'' False of
      (db', ok, m) \<Rightarrow>
        (ok \<longleftrightarrow> False \<or> estado (prog_ejemplo ''PROG-2025-W42-001'' 42 PLANIFICADA) = SIMULACION
                 \<or> estado (prog_ejemplo ''PROG-2025-W42-001'' 42 PLANIFICADA) = CANCELADA) \<and>
        (\<not> ok \<longrightarrow> db' = bd_ejemplo PLANIFICADA SIMULACION \<and>
           m = No_se_puede_eliminar (estado (prog_ejemplo ''PROG-2025-W42-001'' 42 PLANIFICADA))) \<and>
        (ok \<longrightarrow> estado_de db' ''PROG-2025-W42-001'' = None \<and>
           length (programaciones db') + 1
             = length (programaciones (bd_ejemplo PLANIFICADA SIMULACION))))"
proof -
  have h1: "find (\<lambda>p. prog_id p = ''PROG-2025-W42-001'')
              (programaciones (bd_ejemplo PLANIFICADA SIMULACION))
            = Some (prog_ejemplo ''PROG-2025-W42-001'' 42 PLANIFICADA)"
    by (simp add: bd_ejemplo_def prog_ejemplo_def)
  have h2: "distinct (map prog_id (programaciones (bd_ejemplo PLANIFICADA SIMULACION)))"
    by (simp add: bd_ejemplo_def prog_ejemplo_def)
  from eliminar_programacion_politica [OF h1 h2, of False] h1 h2 show ?thesis by blast
qed

text \<open>
  The claim as it is written fails: a programacion in \<open>en_ejecucion\<close> is deleted when
  the flag is passed.
\<close>

theorem eliminar_programacion_forzar_en_ejecucion:
  "estado_de (bd_ejemplo EN_EJECUCION SIMULACION) ''PROG-2025-W42-001'' = Some EN_EJECUCION \<and>
   fst (snd (eliminar_programacion (bd_ejemplo EN_EJECUCION SIMULACION) ''PROG-2025-W42-001'' True)) \<and>
   estado_de (fst (eliminar_programacion (bd_ejemplo EN_EJECUCION SIMULACION)
                     ''PROG-2025-W42-001'' True)) ''PROG-2025-W42-001'' = None"
  by (simp add: eliminar_programacion_def estado_de_def bd_ejemplo_def prog_ejemplo_def)

subsection \<open>Weekly uniqueness\<close>

lemma activas_semana_actualizar_le:
  assumes "\<And>x. anio (f x) = anio x" "\<And>x. semana_produccion (f x) = semana_produccion x"
    and "find P ps = Some r" and "activa (f r) \<Longrightarrow> activa r"
  shows "length (activas_semana a s (actualizar_fila P f ps)) \<le> length (activas_semana a s ps)"
  using assms(3)
proof (induction ps)
  case Nil
  then show ?case by simp
next
  case (Cons x xs)
  then show ?case using assms(1,2,4) by (auto simp: activas_semana_def split: if_splits)
qed

lemma set_actualizar_fila_semana:
  assumes "\<And>x. anio (f x) = anio x" "\<And>x. semana_produccion (f x) = semana_produccion x"
    and "p' \<in> set (actualizar_fila P f ps)"
  shows "\<exists>p \<in> set ps. anio p = anio p' \<and> semana_produccion p = semana_produccion p'"
  using assms(3)
proof (induction ps)
  case Nil
  then show ?case by simp
next
  case (Cons x xs)
  then show ?case using assms(1,2) by (auto split: if_splits)
qed

lemma unicidad_actualizar_no_activa:
  assumes "\<And>x. anio (f x) = anio x" "\<And>x. semana_produccion (f x) = semana_produccion x"
    and "find P ps = Some r" and "activa (f r) \<Longrightarrow> activa r"
    and "unicidad_semanal ps"
  shows "unicidad_semanal (actualizar_fila P f ps)"
  unfolding unicidad_semanal_def list_all_iff
proof
  fix p' assume "p' \<in> set (actualizar_fila P f ps)"
  from set_actualizar_fila_semana [OF assms(1,2) this]
  obtain p where p: "p \<in> set ps" "anio p = anio p'" "semana_produccion p = semana_produccion p'"
    by blast
  have "length (activas_semana (anio p') (semana_produccion p') (actualizar_fila P f ps))
          \<le> length (activas_semana (anio p') (semana_produccion p') ps)"
    using assms(1-4) by (rule activas_semana_actualizar_le)
  also have "\<dots> \<le> 1" using assms(5) p by (auto simp: unicidad_semanal_def list_all_iff)
  finally show "length (activas_semana (anio p') (semana_produccion p') (actualizar_fila P f ps)) \<le> 1" .
qed

lemma transicion_no_activa:
  "nuevo \<in> set (transiciones_validas e) \<Longrightarrow> nuevo \<noteq> PLANIFICADA \<Longrightarrow>
     nuevo = PLANIFICADA \<or> nuevo = EN_EJECUCION \<or> nuevo = COMPLETADA \<Longrightarrow>
     e = PLANIFICADA \<or> e = EN_EJECUCION \<or> e = COMPLETADA"
  by (cases e) auto

lemma activas_semana_aprobar_le1:
  assumes "\<And>x. prog_id (f x) = prog_id x"
    and "distinct (map prog_id ps)"
    and "\<forall>q \<in> set ps. prog_id q \<noteq> pid \<longrightarrow>
           \<not> (activa q \<and> anio q = a \<and> semana_produccion q = s)"
  shows "length (activas_semana a s (actualizar_fila (\<lambda>p. prog_id p = pid) f ps)) \<le> 1"
  using assms(2,3)
proof (induction ps)
  case Nil
  then show ?case by (simp add: activas_semana_def)
next
  case (Cons x xs)
  show ?case
  proof (cases "prog_id x = pid")
    case True
    with Cons.prems(1) have "\<forall>y \<in> set xs. prog_id y \<noteq> pid" by (auto simp: image_iff)
    with Cons.prems(2) have "activas_semana a s xs = []"
      by (auto simp: activas_semana_def filter_empty_conv)
    with True show ?thesis by (simp add: activas_semana_def)
  next
    case False
    with Cons.prems(2) have "\<not> (activa x \<and> anio x = a \<and> semana_produccion x = s)" by simp
    moreover have "length (activas_semana a s (actualizar_fila (\<lambda>p. prog_id p = pid) f xs)) \<le> 1"
      using Cons.prems by (intro Cons.IH) auto
    ultimately show ?thesis using False by (auto simp: activas_semana_def)
  qed
qed

lemma activas_semana_actualizar_otra:
  assumes "\<And>x. anio (f x) = anio x" "\<And>x. semana_produccion (f x) = semana_produccion x"
    and "find P ps = Some r" and "\<not> (anio r = a \<and> semana_produccion r = s)"
  shows "activas_semana a s (actualizar_fila P f ps) = activas_semana a s ps"
  using assms(3,4)
proof (induction ps)
  case Nil
  then show ?case by simp
next
  case (Cons x xs)
  then show ?case using assms(1,2) by (auto simp: activas_semana_def split: if_splits)
qed

lemma find_Some_set: "find P xs = Some x \<Longrightarrow> x \<in> set xs \<and> P x"
  by (induction xs) (auto split: if_splits)

lemma unicidad_aprobar:
  assumes f: "\<And>x. prog_id (f x) = prog_id x" "\<And>x. anio (f x) = anio x"
             "\<And>x. semana_produccion (f x) = semana_produccion x"
    and d: "distinct (map prog_id ps)"
    and r: "find (\<lambda>p. prog_id p = pid) ps = Some r"
    and o: "\<forall>q \<in> set ps. prog_id q \<noteq> pid \<longrightarrow>
           \<not> (activa q \<and> anio q = anio r \<and> semana_produccion q = semana_produccion r)"
    and u: "unicidad_semanal ps"
  shows "unicidad_semanal (actualizar_fila (\<lambda>p. prog_id p = pid) f ps)"
  unfolding unicidad_semanal_def list_all_iff
proof
  fix p' assume "p' \<in> set (actualizar_fila (\<lambda>p. prog_id p = pid) f ps)"
  from set_actualizar_fila_semana [OF f(2,3) this]
  obtain p where p: "p \<in> set ps" "anio p = anio p'" "semana_produccion p = semana_produccion p'"
    by blast
  let ?a = "anio p'" and ?s = "semana_produccion p'"
  show "length (activas_semana ?a ?s (actualizar_fila (\<lambda>p. prog_id p = pid) f ps)) \<le> 1"
  proof (cases "anio r = ?a \<and> semana_produccion r = ?s")
    case True
    with o have "\<forall>q \<in> set ps. prog_id q \<noteq> pid \<longrightarrow>
           \<not> (activa q \<and> anio q = ?a \<and> semana_produccion q = ?s)" by simp
    with f(1) d show ?thesis by (rule activas_semana_aprobar_le1)
  next
    case False
    have "activas_semana ?a ?s (actualizar_fila (\<lambda>p. prog_id p = pid) f ps) = activas_semana ?a ?s ps"
      using f(2,3) r False by (rule activas_semana_actualizar_otra)
    moreover have "length (activas_semana ?a ?s ps) \<le> 1"
      using u p by (auto simp: unicidad_semanal_def list_all_iff)
    ultimately show ?thesis by simp
  qed
qed

text \<open>
  Claim C1 as the code has it. The operations make no check on the other programaciones
  of the week: the approval of a simulation, by \<^verbatim>\<open>aprobar_programacion\<close> or by
  \<^verbatim>\<open>cambiar_estado_programacion\<close> to \<open>planificada\<close>, succeeds, and so does the
  start of a planned programacion, whatever the states of the others. Starting from a
  database with unique keys in which no week has two programaciones in \<open>planificada\<close>,
  \<open>en_ejecucion\<close> or \<open>completada\<close>, that stays so after every call of
  \<^verbatim>\<open>cambiar_estado_programacion\<close> with a target other than \<open>planificada\<close>, and
  after the approval of a simulation by either operation when no other programacion of
  the same week is in one of the three states.
\<close>

theorem unicidad_semanal_preservada:
  assumes r: "find (\<lambda>p. prog_id p = pid) (programaciones db) = Some r"
  shows "(estado r = SIMULACION \<longrightarrow>
            fst (snd (cambiar_estado_programacion db pid PLANIFICADA usuario ahora)) \<and>
            snd (aprobar_programacion db pid por ahora))
       \<and> (estado r = PLANIFICADA \<longrightarrow>
            fst (snd (cambiar_estado_programacion db pid EN_EJECUCION usuario ahora)))
       \<and> (unicidad_semanal (programaciones db) \<and> distinct (map prog_id (programaciones db)) \<longrightarrow>
            (nuevo \<noteq> PLANIFICADA \<longrightarrow>
               unicidad_semanal
                 (programaciones (fst (cambiar_estado_programacion db pid nuevo usuario ahora))))
          \<and> (estado r = SIMULACION \<and>
              (\<forall>q \<in> set (programaciones db). prog_id q \<noteq> pid \<longrightarrow>
                 \<not> (activa q \<and> anio q = anio r \<and> semana_produccion q = semana_produccion r)) \<longrightarrow>
               unicidad_semanal
                 (programaciones (fst (cambiar_estado_programacion db pid PLANIFICADA usuario ahora)))
             \<and> unicidad_semanal (programaciones (fst (aprobar_programacion db pid por ahora)))))"
proof (intro conjI impI)
  assume "estado r = SIMULACION"
  then show "fst (snd (cambiar_estado_programacion db pid PLANIFICADA usuario ahora))"
    using r by (simp add: cambiar_estado_programacion_def Let_def)
  show "snd (aprobar_programacion db pid por ahora)"
    using r by (simp add: aprobar_programacion_def)
next
  assume "estado r = PLANIFICADA"
  then show "fst (snd (cambiar_estado_programacion db pid EN_EJECUCION usuario ahora))"
    using r by (simp add: cambiar_estado_programacion_def Let_def)
next
  assume "unicidad_semanal (programaciones db) \<and> distinct (map prog_id (programaciones db))"
  then have u: "unicidad_semanal (programaciones db)" by simp
  assume n: "nuevo \<noteq> PLANIFICADA"
  show "unicidad_semanal (programaciones (fst (cambiar_estado_programacion db pid nuevo usuario ahora)))"
  proof (cases "nuevo \<in> set (transiciones_validas (estado r))")
    case False
    with r u show ?thesis by (simp add: cambiar_estado_programacion_def Let_def)
  next
    case True
    have "activa (r\<lparr>estado := nuevo\<rparr>) \<Longrightarrow> activa r"
      using transicion_no_activa [OF True n] by (simp add: activa_def)
    then have "unicidad_semanal
                 (actualizar_fila (\<lambda>p. prog_id p = pid) (\<lambda>p. p\<lparr>estado := nuevo\<rparr>) (programaciones db))"
      using u by (intro unicidad_actualizar_no_activa [OF _ _ r]) simp_all
    with True r n show ?thesis
      by (simp add: cambiar_estado_programacion_def Let_def)
  qed
next
  assume "unicidad_semanal (programaciones db) \<and> distinct (map prog_id (programaciones db))"
  then have u: "unicidad_semanal (programaciones db)"
    and d: "distinct (map prog_id (programaciones db))" by simp_all
  assume "estado r = SIMULACION \<and>
          (\<forall>q \<in> set (programaciones db). prog_id q \<noteq> pid \<longrightarrow>
              \<not> (activa q \<and> anio q = anio r \<and> semana_produccion q = semana_produccion r))"
  then have e: "estado r = SIMULACION"
    and o: "\<forall>q \<in> set (programaciones db). prog_id q \<noteq> pid \<longrightarrow>
              \<not> (activa q \<and> anio q = anio r \<and> semana_produccion q = semana_produccion r)"
    by simp_all
  show "unicidad_semanal (programaciones (fst (aprobar_programacion db pid por ahora)))"
    using r by (simp add: aprobar_programacion_def unicidad_aprobar [OF _ _ _ d r o u])
  show "unicidad_semanal (programaciones (fst (cambiar_estado_programacion db pid PLANIFICADA usuario ahora)))"
    using r e
    by (simp add: cambiar_estado_programacion_def Let_def unicidad_aprobar [OF _ _ _ d r o u])
qed

theorem unicidad_semanal_preservada_witness:
  "find (\<lambda>p. prog_id p = ''PROG-2025-W42-002'') (programaciones (bd_ejemplo CANCELADA SIMULACION))
     = Some (prog_ejemplo ''PROG-2025-W42-002'' 42 SIMULACION) \<and>
   estado (prog_ejemplo ''PROG-2025-W42-002'' 42 SIMULACION) = SIMULACION \<and>
   unicidad_semanal (programaciones (bd_ejemplo CANCELADA SIMULACION)) \<and>
   distinct (map prog_id (programaciones (bd_ejemplo CANCELADA SIMULACION))) \<and>
   CANCELADA \<noteq> PLANIFICADA \<and>
   activas_semana 2025 42 (programaciones (bd_ejemplo CANCELADA SIMULACION)) = [] \<and>
   fst (snd (cambiar_estado_programacion
      (bd_ejemplo CANCELADA SIMULACION) ''PROG-2025-W42-002'' PLANIFICADA None 1)) \<and>
   snd (aprobar_programacion (bd_ejemplo CANCELADA SIMULACION) ''PROG-2025-W42-002'' ''Ana'' 1) \<and>
   unicidad_semanal (programaciones (fst (cambiar_estado_programacion
      (bd_ejemplo CANCELADA SIMULACION) ''PROG-2025-W42-002'' CANCELADA None 1))) \<and>
   unicidad_semanal (programaciones (fst (cambiar_estado_programacion
      (bd_ejemplo CANCELADA SIMULACION) ''PROG-2025-W42-002'' PLANIFICADA None 1))) \<and>
   unicidad_semanal (programaciones (fst (aprobar_programacion
      (bd_ejemplo CANCELADA SIMULACION) ''PROG-2025-W42-002'' ''Ana'' 1)))"
proof -
  have h1: "unicidad_semanal (programaciones (bd_ejemplo CANCELADA SIMULACION))"
    by (simp add: unicidad_semanal_def activas_semana_def activa_def bd_ejemplo_def
          prog_ejemplo_def)
  have h2: "distinct (map prog_id (programaciones (bd_ejemplo CANCELADA SIMULACION)))"
    by (simp add: bd_ejemplo_def prog_ejemplo_def)
  have h3: "find (\<lambda>p. prog_id p = ''PROG-2025-W42-002'')
              (programaciones (bd_ejemplo CANCELADA SIMULACION))
            = Some (prog_ejemplo ''PROG-2025-W42-002'' 42 SIMULACION)"
    by (simp add: bd_ejemplo_def prog_ejemplo_def)
  have h4: "CANCELADA \<noteq> PLANIFICADA" by simp
  have h5: "\<forall>q \<in> set (programaciones (bd_ejemplo CANCELADA SIMULACION)).
      prog_id q \<noteq> ''PROG-2025-W42-002'' \<longrightarrow>
      \<not> (activa q \<and> anio q = anio (prog_ejemplo ''PROG-2025-W42-002'' 42 SIMULACION) \<and>
         semana_produccion q = semana_produccion (prog_ejemplo ''PROG-2025-W42-002'' 42 SIMULACION))"
    by (simp add: activa_def bd_ejemplo_def prog_ejemplo_def)
  have h6: "activas_semana 2025 42 (programaciones (bd_ejemplo CANCELADA SIMULACION)) = []"
    by (simp add: activas_semana_def activa_def bd_ejemplo_def prog_ejemplo_def)
  have h7: "estado (prog_ejemplo ''PROG-2025-W42-002'' 42 SIMULACION) = SIMULACION"
    by (simp add: prog_ejemplo_def)
  from unicidad_semanal_preservada [OF h3, of None 1 "''Ana''" CANCELADA]
       h1 h2 h3 h4 h5 h6 h7
  show ?thesis by blast
qed

text \<open>
  The claim as it is written fails. With one programacion of week 42 in
  \<open>planificada\<close>, the approval of a second one of the same week succeeds through both
  operations, and two programaciones of the week are \<open>planificada\<close> afterwards. With
  one programacion of the week in \<open>completada\<close>, the start of another one that is
  \<open>planificada\<close> succeeds.
\<close>

theorem aprobar_con_otra_activa:
  "unicidad_semanal (programaciones (bd_ejemplo PLANIFICADA SIMULACION)) \<and>
   fst (snd (cambiar_estado_programacion (bd_ejemplo PLANIFICADA SIMULACION)
               ''PROG-2025-W42-002'' PLANIFICADA (Some ''Ana'') 1)) \<and>
   \<not> unicidad_semanal (programaciones (fst (cambiar_estado_programacion
        (bd_ejemplo PLANIFICADA SIMULACION) ''PROG-2025-W42-002'' PLANIFICADA (Some ''Ana'') 1))) \<and>
   snd (aprobar_programacion (bd_ejemplo PLANIFICADA SIMULACION) ''PROG-2025-W42-002'' ''Ana'' 1) \<and>
   \<not> unicidad_semanal (programaciones (fst (aprobar_programacion
        (bd_ejemplo PLANIFICADA SIMULACION) ''PROG-2025-W42-002'' ''Ana'' 1))) \<and>
   estado_de (bd_ejemplo COMPLETADA PLANIFICADA) ''PROG-2025-W42-001'' = Some COMPLETADA \<and>
   fst (snd (cambiar_estado_programacion (bd_ejemplo COMPLETADA PLANIFICADA)
               ''PROG-2025-W42-002'' EN_EJECUCION (Some ''Ana'') 1)) \<and>
   estado_de (fst (cambiar_estado_programacion (bd_ejemplo COMPLETADA PLANIFICADA)
               ''PROG-2025-W42-002'' EN_EJECUCION (Some ''Ana'') 1)) ''PROG-2025-W42-002''
     = Some EN_EJECUCION"
  by (simp add: cambiar_estado_programacion_def aprobar_programacion_def unicidad_semanal_def
        activas_semana_def activa_def estado_de_def bd_ejemplo_def prog_ejemplo_def)

section \<open>Properties of the execution recorder\<close>

text \<open>
  Claim C4 as the code has it. \<^verbatim>\<open>registrar_ejecucion_real\<close> fails, with
  \<^verbatim>\<open>ValueError\<close> and no new row, exactly when the planned task does not exist.
  Otherwise it adds one execution for the task and leaves every other row of every table
  as it was; it reads neither the executions already stored nor the state of the
  programacion. So the executions of the task grow by one and those of every other task
  stay, and each planned task has at most one execution afterwards provided that this
  held before and the task had none.
\<close>

theorem registrar_ejecucion_real_sin_validacion:
  "case registrar_ejecucion_real db tpid ini fin maq op prob notas paradas reg of
     Inl err \<Rightarrow> err = ValueError \<and> find (\<lambda>t. tp_id t = tpid) (tareas_planificadas db) = None
   | Inr (db', eid) \<Rightarrow>
       find (\<lambda>t. tp_id t = tpid) (tareas_planificadas db) \<noteq> None \<and>
       (\<exists>e. db' = db\<lparr>ejecuciones_reales := ejecuciones_reales db @ [e]\<rparr> \<and>
            er_tarea_planificada_id e = tpid \<and> er_id e = eid) \<and>
       programaciones db' = programaciones db \<and>
       tareas db' = tareas db \<and>
       tareas_planificadas db' = tareas_planificadas db \<and>
       length (ejecuciones_de db' tpid) = length (ejecuciones_de db tpid) + 1 \<and>
       (\<forall>t. t \<noteq> tpid \<longrightarrow> ejecuciones_de db' t = ejecuciones_de db t) \<and>
       ((\<forall>t. length (ejecuciones_de db t) \<le> 1) \<and> ejecuciones_de db tpid = [] \<longrightarrow>
          (\<forall>t. length (ejecuciones_de db' t) \<le> 1))"
proof (cases "find (\<lambda>t. tp_id t = tpid) (tareas_planificadas db)")
  case None
  then show ?thesis by (simp add: registrar_ejecucion_real_def)
next
  case (Some tp)
  then obtain db' eid where r:
    "registrar_ejecucion_real db tpid ini fin maq op prob notas paradas reg = Inr (db', eid)"
    by (simp add: registrar_ejecucion_real_def Let_def)
  from r Some have c: "\<exists>e. db' = db\<lparr>ejecuciones_reales := ejecuciones_reales db @ [e]\<rparr> \<and>
            er_tarea_planificada_id e = tpid \<and> er_id e = eid"
    by (auto simp: registrar_ejecucion_real_def Let_def)
  then obtain e where e: "db' = db\<lparr>ejecuciones_reales := ejecuciones_reales db @ [e]\<rparr>"
    "er_tarea_planificada_id e = tpid" by blast
  from e(1) have a: "programaciones db' = programaciones db" "tareas db' = tareas db"
    "tareas_planificadas db' = tareas_planificadas db" by simp_all
  from e have d: "length (ejecuciones_de db' tpid) = length (ejecuciones_de db tpid) + 1"
    and f: "\<forall>t. t \<noteq> tpid \<longrightarrow> ejecuciones_de db' t = ejecuciones_de db t"
    by (auto simp: ejecuciones_de_def)
  have "\<forall>t. length (ejecuciones_de db' t) \<le> 1"
    if "\<forall>t. length (ejecuciones_de db t) \<le> 1" and "ejecuciones_de db tpid = []"
  proof
    fix t show "length (ejecuciones_de db' t) \<le> 1"
      using that d f by (cases "t = tpid") auto
  qed
  with r Some a c d f show ?thesis by simp
qed

theorem registrar_ejecucion_real_sin_validacion_witness:
  "case registrar_ejecucion_real (bd_ejemplo CANCELADA EN_EJECUCION) 1 0 6000000000 ''M1''
          (Some ''OP1'') [] [] (Some 5) ''Operador'' of
     Inl err \<Rightarrow> False
   | Inr (db', eid) \<Rightarrow>
       eid = 1 \<and> length (ejecuciones_de db' 1) = 1 \<and>
       (\<forall>t. length (ejecuciones_de (bd_ejemplo CANCELADA EN_EJECUCION) t) \<le> 1) \<and>
       ejecuciones_de (bd_ejemplo CANCELADA EN_EJECUCION) 1 = [] \<and>
       (\<forall>t. length (ejecuciones_de db' t) \<le> 1)"
proof -
  have h: "(\<forall>t. length (ejecuciones_de (bd_ejemplo CANCELADA EN_EJECUCION) t) \<le> 1) \<and>
           ejecuciones_de (bd_ejemplo CANCELADA EN_EJECUCION) 1 = []"
    by (simp add: ejecuciones_de_def bd_ejemplo_def)
  obtain db' eid where r:
    "registrar_ejecucion_real (bd_ejemplo CANCELADA EN_EJECUCION) 1 0 6000000000 ''M1''
       (Some ''OP1'') [] [] (Some 5) ''Operador'' = Inr (db', eid)" and i: "eid = 1"
    by (simp add: registrar_ejecucion_real_def Let_def bd_ejemplo_def siguiente_id_def)
  from registrar_ejecucion_real_sin_validacion
         [where db = "bd_ejemplo CANCELADA EN_EJECUCION" and tpid = 1 and ini = 0
            and fin = 6000000000 and maq = "''M1''" and op = "Some ''OP1''" and prob = "[]"
            and notas = "[]" and paradas = "Some 5" and reg = "''Operador''"] r h i
  show ?thesis by simp
qed

text \<open>
  The claim as it is written fails. The planned task 1 belongs to a programacion in
  \<open>simulacion\<close>; a first registration succeeds although the programacion is not
  \<open>en_ejecucion\<close>, and a second one succeeds although the task has an execution: the
  task ends with two.
\<close>

theorem registrar_ejecucion_real_dos_veces:
  "estado_de (bd_ejemplo PLANIFICADA SIMULACION) ''PROG-2025-W42-002'' = Some SIMULACION \<and>
   registrar_ejecucion_real (bd_ejemplo PLANIFICADA SIMULACION) 1 0 6000000000 ''M1''
       (Some ''OP1'') [] [] (Some 5) ''Operador''
     = Inr (bd_tras_registro (bd_ejemplo PLANIFICADA SIMULACION), 1) \<and>
   length (ejecuciones_de (bd_tras_registro (bd_ejemplo PLANIFICADA SIMULACION)) 1) = 1 \<and>
   registrar_ejecucion_real (bd_tras_registro (bd_ejemplo PLANIFICADA SIMULACION)) 1 0 6000000000
       ''M1'' (Some ''OP1'') [] [] (Some 5) ''Operador''
     = Inr (bd_tras_registro (bd_tras_registro (bd_ejemplo PLANIFICADA SIMULACION)), 2) \<and>
   length (ejecuciones_de
             (bd_tras_registro (bd_tras_registro (bd_ejemplo PLANIFICADA SIMULACION))) 1) = 2"
  by (simp add: registrar_ejecucion_real_def bd_tras_registro_def Let_def bd_ejemplo_def
        prog_ejemplo_def estado_de_def ejecuciones_de_def siguiente_id_def)





section \<open>Properties of the clock times\<close>

text \<open>
  Whatever is configured, a part that ends on a day boundary \<open>(k + 1) * H_day\<close> gets
  the end time 18:00, and never the shift start that \<^verbatim>\<open>minutos_a_hora_dia\<close>
  returns for a multiple of the day length.
\<close>

lemma fin_real_de_parte_limite:
  assumes "0 < mpd" and "0 \<le> k"
  shows "fin_real_de_parte ss ((k + 1) * mpd) mpd = Inr \<lparr>hour = 18, minute = 0\<rparr>"
proof -
  have "0 < (k + 1) * mpd" using assms by simp
  then show ?thesis using assms(1) by (simp add: fin_real_de_parte_def)
qed

lemma fin_real_de_parte_turno_por_defecto:
  assumes "0 < mpd" and "0 \<le> k" and "ss_hora_fin ss = None \<or> ss_hora_fin ss = Some \<lparr>hour = 18, minute = 0\<rparr>"
  shows "fin_real_de_parte ss ((k + 1) * mpd) mpd =
           Inr (case ss_hora_fin ss of Some h \<Rightarrow> h | None \<Rightarrow> \<lparr>hour = 18, minute = 0\<rparr>)"
  using assms fin_real_de_parte_limite [of mpd k ss] by auto

text \<open>
  Claim C7, at the input where the code departs from it. The shift is configured from
  08:00 to 17:00 with 480 effective minutes per day, and a part ends at minute 480, the
  end of the first day. The emitted end time is 18:00, which is not the configured shift
  end 17:00. (Without the special case the result would be the shift start 08:00; one
  minute earlier the result is 15:59.)
\<close>

theorem fin_real_de_parte_turno_8_a_17:
  "ss_hora_fin turno_8_a_17 = Some \<lparr>hour = 17, minute = 0\<rparr> \<and>
   fin_real_de_parte turno_8_a_17 480 480 = Inr \<lparr>hour = 18, minute = 0\<rparr> \<and>
   minutos_a_hora_dia turno_8_a_17 (Some 480) (Some 480) = Inr \<lparr>hour = 8, minute = 0\<rparr> \<and>
   fin_real_de_parte turno_8_a_17 479 480 = Inr \<lparr>hour = 15, minute = 59\<rparr>"
  by (simp add: fin_real_de_parte_def minutos_a_hora_dia_def turno_8_a_17_def Let_def)

section \<open>Properties of the KPI calculator\<close>

lemma redondeo_no_negativo: "redondeo_valido rd \<Longrightarrow> 0 \<le> x \<Longrightarrow> 0 \<le> rd x"
  using monoD [of rd 0 x] by (simp add: redondeo_valido_def)

lemma redondeo_cota_1: "redondeo_valido rd \<Longrightarrow> x \<le> 1 \<Longrightarrow> rd x \<le> 1"
  using monoD [of rd x 1] by (simp add: redondeo_valido_def)

lemma redondeo_cota_100: "redondeo_valido rd \<Longrightarrow> x \<le> 100 \<Longrightarrow> rd x \<le> 100"
  using monoD [of rd x 100] by (simp add: redondeo_valido_def)

lemma redondeo_cota_10000: "redondeo_valido rd \<Longrightarrow> x \<le> 10000 \<Longrightarrow> rd x \<le> 10000"
  using monoD [of rd x 10000] by (simp add: redondeo_valido_def)

lemma redondeo_cota_1000000: "redondeo_valido rd \<Longrightarrow> x \<le> 1000000 \<Longrightarrow> rd x \<le> 1000000"
  using monoD [of rd x 1000000] by (simp add: redondeo_valido_def)

lemma porcentaje_no_negativo:
  assumes "redondeo_valido rd" and "0 \<le> q"
  shows "0 \<le> rd (rd q * 100)"
proof -
  have "0 \<le> rd q" using assms by (rule redondeo_no_negativo)
  then have "0 \<le> rd q * 100" by simp
  with assms(1) show ?thesis by (rule redondeo_no_negativo)
qed

lemma porcentaje_cota:
  assumes "redondeo_valido rd" and "q \<le> 1"
  shows "rd (rd q * 100) \<le> 100"
proof -
  have "rd q \<le> 1" using assms by (rule redondeo_cota_1)
  then have "rd q * 100 \<le> 100" by simp
  with assms(1) show ?thesis by (rule redondeo_cota_100)
qed

lemma calcular_disponibilidad_rango:
  "0 \<le> calcular_disponibilidad rd ejs \<and> calcular_disponibilidad rd ejs \<le> 100"
  by (simp add: calcular_disponibilidad_def Let_def)

lemma razon_filtro:
  assumes "redondeo_valido rd" and "xs \<noteq> []"
  shows "0 \<le> rd (rd (real (length (filter P xs)) / real (length xs)) * 100) \<and>
         rd (rd (real (length (filter P xs)) / real (length xs)) * 100) \<le> 100"
proof -
  define q where "q = real (length (filter P xs)) / real (length xs)"
  have "real (length (filter P xs)) \<le> real (length xs)" by simp
  moreover have "0 < real (length xs)" using assms(2) by simp
  ultimately have "q \<le> 1" "0 \<le> q" by (simp_all add: q_def divide_le_eq)
  then have "0 \<le> rd (rd q * 100) \<and> rd (rd q * 100) \<le> 100"
    using porcentaje_no_negativo [OF assms(1), of q] porcentaje_cota [OF assms(1), of q]
    by simp
  then show ?thesis by (simp only: q_def)
qed

lemma calcular_calidad_rango:
  assumes "redondeo_valido rd"
  shows "0 \<le> calcular_calidad rd ejs \<and> calcular_calidad rd ejs \<le> 100"
  using razon_filtro [OF assms, of ejs sin_problemas]
  by (simp add: calcular_calidad_def Let_def)

lemma calcular_cumplimiento_plazos_rango:
  assumes "redondeo_valido rd"
  shows "0 \<le> otif_porcentaje (calcular_cumplimiento_plazos rd ejs tol sem an) \<and>
         otif_porcentaje (calcular_cumplimiento_plazos rd ejs tol sem an) \<le> 100"
proof (cases "ejs = []")
  case True
  then show ?thesis by (simp add: calcular_cumplimiento_plazos_def)
next
  case False
  let ?ds = "map (\<lambda>e. desviacion_tarea rd e sem an) ejs"
  have "?ds \<noteq> []" using False by simp
  from razon_filtro [OF assms this, of "\<lambda>d. d = 0 \<or> \<bar>d\<bar> \<le> real_of_int tol"] False
  show ?thesis by (simp add: calcular_cumplimiento_plazos_def Let_def)
qed

lemma construir_datetime_planificado_orden:
  assumes "construir_datetime_planificado (HM h1 m1) dia sem an = Some x"
    and "construir_datetime_planificado (HM h2 m2) dia sem an = Some y"
    and "h1 * 60 + m1 \<le> h2 * 60 + m2"
  shows "x \<le> y"
  using assms
  by (auto simp: construir_datetime_planificado_def Let_def split: if_splits)

lemma duracion_plan_total_no_negativa:
  assumes "redondeo_valido rd" and "plan_no_negativo e"
    and "duracion_plan_total rd e sem an = Some d"
  shows "0 \<le> d"
proof -
  from assms(3) obtain x y where
    x: "construir_datetime_planificado (e_inicio_hora e) (the (e_dia_semana e)) (the sem) (the an)
          = Some x"
    and y: "construir_datetime_planificado (e_fin_hora e) (the (e_dia_semana e)) (the sem) (the an)
          = Some y"
    and d: "d = rd (total_seconds rd ((y - x) * 60000000) / 60)"
    by (auto simp: duracion_plan_total_def split: if_splits option.splits)
  from x obtain h1 m1 where h1: "e_inicio_hora e = HM h1 m1"
    by (cases "e_inicio_hora e") (simp_all add: construir_datetime_planificado_def)
  from y obtain h2 m2 where h2: "e_fin_hora e = HM h2 m2"
    by (cases "e_fin_hora e") (simp_all add: construir_datetime_planificado_def)
  have "h1 * 60 + m1 \<le> h2 * 60 + m2"
    using assms(2) h1 h2 by (simp add: plan_no_negativo_def)
  then have "x \<le> y"
    using construir_datetime_planificado_orden x y h1 h2 by metis
  then have "0 \<le> real_of_int ((y - x) * 60000000) / 1000000" by simp
  then have "0 \<le> total_seconds rd ((y - x) * 60000000)"
    unfolding total_seconds_def by (rule redondeo_no_negativo [OF assms(1)])
  then have "0 \<le> total_seconds rd ((y - x) * 60000000) / 60" by simp
  then show ?thesis unfolding d by (rule redondeo_no_negativo [OF assms(1)])
qed

lemma suma_plan_no_negativa:
  "list_all plan_no_negativo ejs \<Longrightarrow> 0 \<le> suma_campo e_duracion_planificada ejs"
  unfolding suma_campo_def
  by (induction ejs) (auto simp: plan_no_negativo_def split: campo.splits)

lemma fold_horas_no_negativa:
  assumes "redondeo_valido rd"
  shows "list_all plan_no_negativo ejs \<Longrightarrow> 0 \<le> acum \<Longrightarrow>
     0 \<le> fold (\<lambda>ejec tot. case duracion_plan_total rd ejec sem an of
                               Some dur_plan_total \<Rightarrow> rd (tot + dur_plan_total)
                             | None \<Rightarrow> tot) ejs acum"
proof (induction ejs arbitrary: acum)
  case Nil
  then show ?case by simp
next
  case (Cons e ejs)
  define acum' where "acum' = (case duracion_plan_total rd e sem an of
                               Some dur_plan_total \<Rightarrow> rd (acum + dur_plan_total)
                             | None \<Rightarrow> acum)"
  have "0 \<le> acum'"
  proof (cases "duracion_plan_total rd e sem an")
    case None
    with Cons.prems(2) show ?thesis by (simp add: acum'_def)
  next
    case (Some d)
    have "0 \<le> d" using duracion_plan_total_no_negativa [OF assms _ Some] Cons.prems(1) by simp
    then have "0 \<le> rd (acum + d)"
      using Cons.prems(2) by (intro redondeo_no_negativo [OF assms]) simp
    with Some show ?thesis by (simp add: acum'_def)
  qed
  moreover have "list_all plan_no_negativo ejs" using Cons.prems(1) by simp
  ultimately show ?case using Cons.IH [of acum'] by (simp add: acum'_def)
qed

lemma suma_horas_no_negativa:
  assumes "redondeo_valido rd" and "list_all plan_no_negativo ejs"
  shows "0 \<le> suma_horas rd ejs sem an"
  unfolding suma_horas_def using fold_horas_no_negativa [OF assms(1) assms(2), of 0] by simp

lemma calcular_rendimiento_no_negativo:
  assumes "redondeo_valido rd" and "list_all plan_no_negativo ejs"
  shows "0 \<le> calcular_rendimiento rd ejs sem an"
proof -
  define r where "r = suma_campo e_duracion_real ejs"
  define p where "p = suma_campo e_duracion_planificada ejs"
  define h where "h = suma_horas rd ejs sem an"
  have p: "0 \<le> p" unfolding p_def using assms(2) by (rule suma_plan_no_negativa)
  have h: "0 \<le> h" unfolding h_def using assms by (rule suma_horas_no_negativa)
  have a: "0 \<le> rd (rd (real_of_int p / real_of_int r) * 100)" if "0 < r"
    using that p by (intro porcentaje_no_negativo [OF assms(1)]) simp
  have b: "0 \<le> rd (rd (h / rd (real_of_int r)) * 100)" if "0 < r"
  proof -
    have "0 \<le> rd (real_of_int r)" using that by (intro redondeo_no_negativo [OF assms(1)]) simp
    with h show ?thesis by (intro porcentaje_no_negativo [OF assms(1)]) simp
  qed
  show ?thesis
    using a b by (simp add: calcular_rendimiento_def Let_def r_def p_def h_def)
qed

lemma producto_cota:
  fixes x c a b :: real
  assumes "x \<le> a" and "0 \<le> c" and "c \<le> b" and "0 \<le> a"
  shows "x * c \<le> a * b"
proof (cases "0 \<le> x")
  case True
  with assms show ?thesis by (intro mult_mono) simp_all
next
  case False
  then have "x * c \<le> 0" using assms(2) by (simp add: mult_nonpos_nonneg)
  moreover have "0 \<le> a * b" using assms by simp
  ultimately show ?thesis by linarith
qed

lemma calcular_oee_cotas:
  assumes v: "redondeo_valido rd" and "0 \<le> d" "d \<le> 100" "0 \<le> c" "c \<le> 100"
  shows "(0 \<le> r \<longrightarrow> 0 \<le> calcular_oee rd d r c) \<and>
         (r \<le> 100 \<longrightarrow> calcular_oee rd d r c \<le> 100)"
proof (intro conjI impI)
  assume "0 \<le> r"
  then have "0 \<le> d * r" using assms by simp
  then have "0 \<le> rd (d * r)" by (rule redondeo_no_negativo [OF v])
  then have "0 \<le> rd (d * r) * c" using assms by simp
  then have "0 \<le> rd (rd (d * r) * c)" by (rule redondeo_no_negativo [OF v])
  then have "0 \<le> rd (rd (d * r) * c) / 10000" by simp
  then show "0 \<le> calcular_oee rd d r c"
    unfolding calcular_oee_def by (rule redondeo_no_negativo [OF v])
next
  assume "r \<le> 100"
  then have "r * d \<le> 100 * 100" using assms by (intro producto_cota) simp_all
  then have "d * r \<le> 10000" by (simp add: mult.commute)
  then have "rd (d * r) \<le> 10000" by (rule redondeo_cota_10000 [OF v])
  then have "rd (d * r) * c \<le> 10000 * 100" using assms by (intro producto_cota) simp_all
  then have "rd (d * r) * c \<le> 1000000" by simp
  then have "rd (rd (d * r) * c) \<le> 1000000" by (rule redondeo_cota_1000000 [OF v])
  then have "rd (rd (d * r) * c) / 10000 \<le> 100" by simp
  then show "calcular_oee rd d r c \<le> 100"
    unfolding calcular_oee_def by (rule redondeo_cota_100 [OF v])
qed

lemma list_all_actualizar_fila:
  "list_all Q xs \<Longrightarrow> (\<And>x. Q x \<Longrightarrow> Q (f x)) \<Longrightarrow> list_all Q (actualizar_fila P f xs)"
  by (induction xs) auto

lemma acumular_maquinas_no_negativo:
  assumes "list_all real_no_negativo ejs"
    and "list_all (\<lambda>fila. ac_no_negativo (snd fila)) ms"
    and "acumular_maquinas ejs ms = Inr ms'"
  shows "list_all (\<lambda>fila. ac_no_negativo (snd fila)) ms'"
  using assms
proof (induction ejs arbitrary: ms)
  case Nil
  then show ?case by simp
next
  case (Cons e ejs)
  show ?case
  proof (cases "maquina_de e")
    case None
    with Cons show ?thesis by simp
  next
    case (Some maq)
    define ms1 where "ms1 = (if maq \<notin> set (map fst ms)
                  then ms @ [(maq, \<lparr>ac_tiempo_productivo = 0, ac_tiempo_planificado = 0,
                                           ac_tiempo_setup = 0, ac_num_tareas = 0\<rparr>)]
                  else ms)"
    have a1: "list_all (\<lambda>fila. ac_no_negativo (snd fila)) ms1"
      using Cons.prems(2) by (simp add: ms1_def ac_no_negativo_def)
    from Cons.prems(3) Some obtain dr dp tp where
      g: "py_get_defecto 0 (e_duracion_real e) = Some dr"
         "py_get_defecto 0 (e_duracion_planificada e) = Some dp"
         "py_get_defecto 0 (e_tiempo_paradas e) = Some tp"
      by (auto simp: Let_def split: option.splits)
    from Cons.prems(1) g have nn: "0 \<le> dr" "0 \<le> tp"
      by (auto simp: real_no_negativo_def split: campo.splits)
    define f where "f = (\<lambda>fila :: string \<times> acumulado. (fst fila,
                          (snd fila)\<lparr>ac_tiempo_productivo := ac_tiempo_productivo (snd fila) + dr,
                                     ac_tiempo_planificado := ac_tiempo_planificado (snd fila) + dp,
                                     ac_tiempo_setup := ac_tiempo_setup (snd fila) + tp,
                                     ac_num_tareas := ac_num_tareas (snd fila) + 1\<rparr>))"
    have a2: "list_all (\<lambda>fila. ac_no_negativo (snd fila))
                (actualizar_fila (\<lambda>fila. fst fila = maq) f ms1)"
      using a1 nn by (intro list_all_actualizar_fila) (auto simp: f_def ac_no_negativo_def)
    have "acumular_maquinas ejs (actualizar_fila (\<lambda>fila. fst fila = maq) f ms1) = Inr ms'"
      using Cons.prems(3) Some g by (simp add: Let_def ms1_def f_def)
    with Cons.IH a2 Cons.prems(1) show ?thesis by simp
  qed
qed

lemma datos_de_maquina_utilizacion:
  assumes v: "redondeo_valido rd"
  shows "(ac_no_negativo ac \<longrightarrow> 0 \<le> utilizacion_total (datos_de_maquina rd cap ac)) \<and>
   (0 < cap \<and> tiempo_productivo (datos_de_maquina rd cap ac)
                + tiempo_setup (datos_de_maquina rd cap ac) \<le> cap
      \<longrightarrow> utilizacion_total (datos_de_maquina rd cap ac) \<le> 100) \<and>
   (cap \<le> 0 \<longrightarrow> utilizacion_total (datos_de_maquina rd cap ac) = 0)"
proof -
  define x where "x = ac_tiempo_productivo ac + ac_tiempo_setup ac"
  have u: "utilizacion_total (datos_de_maquina rd cap ac) =
             (if cap > 0 then rd (rd (real_of_int x / real_of_int cap) * 100) else 0)"
    by (simp add: datos_de_maquina_def Let_def x_def)
  have t: "tiempo_productivo (datos_de_maquina rd cap ac)
             + tiempo_setup (datos_de_maquina rd cap ac) = x"
    by (simp add: datos_de_maquina_def Let_def x_def)
  have le: "rd (rd (real_of_int x / real_of_int cap) * 100) \<le> 100" if "0 < cap" "x \<le> cap"
  proof -
    have "real_of_int x \<le> real_of_int cap" using that(2) by simp
    moreover have "0 < real_of_int cap" using that(1) by simp
    ultimately have "real_of_int x / real_of_int cap \<le> 1" by (simp add: divide_le_eq)
    then show ?thesis by (rule porcentaje_cota [OF v])
  qed
  have nn: "0 \<le> utilizacion_total (datos_de_maquina rd cap ac)" if "ac_no_negativo ac"
  proof (cases "cap > 0")
    case True
    have "0 \<le> x" using that by (simp add: ac_no_negativo_def x_def)
    then have "0 \<le> real_of_int x / real_of_int cap" using True by simp
    then have "0 \<le> rd (rd (real_of_int x / real_of_int cap) * 100)"
      by (rule porcentaje_no_negativo [OF v])
    with True u show ?thesis by simp
  next
    case False
    with u show ?thesis by simp
  qed
  have a: "0 < cap \<and> tiempo_productivo (datos_de_maquina rd cap ac)
                + tiempo_setup (datos_de_maquina rd cap ac) \<le> cap
      \<longrightarrow> utilizacion_total (datos_de_maquina rd cap ac) \<le> 100"
    using le u by (simp only: t) simp
  have b: "cap \<le> 0 \<longrightarrow> utilizacion_total (datos_de_maquina rd cap ac) = 0"
    using u by simp
  from nn a b show ?thesis by blast
qed

lemma calcular_eficiencia_machines_utilizacion:
  assumes v: "redondeo_valido rd"
    and "calcular_eficiencia_machines rd calc ejs = Inr ms" and "(m, d) \<in> set ms"
  shows "(list_all real_no_negativo ejs \<longrightarrow> 0 \<le> utilizacion_total d) \<and>
         (0 < capacidad_maquina calc \<and>
          tiempo_productivo d + tiempo_setup d \<le> capacidad_maquina calc
            \<longrightarrow> utilizacion_total d \<le> 100) \<and>
         (capacidad_maquina calc \<le> 0 \<longrightarrow> utilizacion_total d = 0)"
proof (cases "ejs = []")
  case True
  with assms show ?thesis by (simp add: calcular_eficiencia_machines_def)
next
  case False
  with assms(2) obtain acs where acs: "acumular_maquinas ejs [] = Inr acs"
    and ms: "ms = map (\<lambda>fila. (fst fila, datos_de_maquina rd (capacidad_maquina calc) (snd fila))) acs"
    by (auto simp: calcular_eficiencia_machines_def capacidad_maquina_def split: sum.splits)
  from assms(3) ms obtain ac where ac: "(m, ac) \<in> set acs"
    and d: "d = datos_de_maquina rd (capacidad_maquina calc) ac" by auto
  have "ac_no_negativo ac" if "list_all real_no_negativo ejs"
    using acumular_maquinas_no_negativo [OF that _ acs] ac by (auto simp: list_all_iff)
  with datos_de_maquina_utilizacion [OF v, of ac "capacidad_maquina calc"] d
  show ?thesis by blast
qed

text \<open>
  Claim C5 as the code has it, for every rounding of the floating point operations that
  is monotone and exact on 0, 1, 100, 10000 and 1000000. For every list of execution
  records, Availability, Quality and OTIF lie in \<open>[0, 100]\<close>. When no record has a
  negative planned duration, Performance is at least 0 and OEE is at least 0. OEE is at
  most 100 when Performance is at most 100. The utilization of a machine in the result
  is at least 0 when no record has a negative real duration or negative stops; it is at
  most 100 when the capacity \<open>dias_laborales * minutos_por_dia\<close> is positive and the
  real time plus the stops of the machine do not exceed it; and it is 0 when the capacity
  is not positive.
\<close>

theorem kpi_rangos:
  assumes "redondeo_valido rd"
  shows
  "0 \<le> calcular_disponibilidad rd ejs \<and> calcular_disponibilidad rd ejs \<le> 100 \<and>
   0 \<le> calcular_calidad rd ejs \<and> calcular_calidad rd ejs \<le> 100 \<and>
   0 \<le> otif_porcentaje (calcular_cumplimiento_plazos rd ejs tol sem an) \<and>
   otif_porcentaje (calcular_cumplimiento_plazos rd ejs tol sem an) \<le> 100 \<and>
   (list_all plan_no_negativo ejs \<longrightarrow>
      0 \<le> calcular_rendimiento rd ejs sem an \<and>
      0 \<le> calcular_oee rd (calcular_disponibilidad rd ejs) (calcular_rendimiento rd ejs sem an)
             (calcular_calidad rd ejs)) \<and>
   (calcular_rendimiento rd ejs sem an \<le> 100 \<longrightarrow>
      calcular_oee rd (calcular_disponibilidad rd ejs) (calcular_rendimiento rd ejs sem an)
        (calcular_calidad rd ejs) \<le> 100) \<and>
   (\<forall>ms m d. calcular_eficiencia_machines rd calc ejs = Inr ms \<and> (m, d) \<in> set ms \<longrightarrow>
      (list_all real_no_negativo ejs \<longrightarrow> 0 \<le> utilizacion_total d) \<and>
      (0 < capacidad_maquina calc \<and>
       tiempo_productivo d + tiempo_setup d \<le> capacidad_maquina calc
         \<longrightarrow> utilizacion_total d \<le> 100) \<and>
      (capacidad_maquina calc \<le> 0 \<longrightarrow> utilizacion_total d = 0))"
proof -
  note v = assms
  have r: "0 \<le> calcular_rendimiento rd ejs sem an" if "list_all plan_no_negativo ejs"
    using v that by (rule calcular_rendimiento_no_negativo)
  have o: "(0 \<le> calcular_rendimiento rd ejs sem an \<longrightarrow>
            0 \<le> calcular_oee rd (calcular_disponibilidad rd ejs)
                   (calcular_rendimiento rd ejs sem an) (calcular_calidad rd ejs)) \<and>
           (calcular_rendimiento rd ejs sem an \<le> 100 \<longrightarrow>
            calcular_oee rd (calcular_disponibilidad rd ejs)
              (calcular_rendimiento rd ejs sem an) (calcular_calidad rd ejs) \<le> 100)"
    using calcular_disponibilidad_rango [of rd ejs] calcular_calidad_rango [OF v, of ejs]
    by (intro calcular_oee_cotas [OF v]) simp_all
  show ?thesis
    using calcular_disponibilidad_rango [of rd ejs] calcular_calidad_rango [OF v, of ejs]
      calcular_cumplimiento_plazos_rango [OF v, of ejs tol sem an] r o
      calcular_eficiencia_machines_utilizacion [OF v, of calc ejs]
    by blast
qed

text \<open>
  An instance: one task of machine M1 planned for 60 minutes and done in 60. Performance
  and OEE are 100 and the utilization of M1 is 2 (60 of 3000 minutes).
\<close>

theorem kpi_rangos_witness:
  "redondeo_valido sin_redondeo \<and>
   list_all plan_no_negativo [ejecucion_ejemplo 60 60] \<and>
   list_all real_no_negativo [ejecucion_ejemplo 60 60] \<and>
   0 < capacidad_maquina calculadora_ejemplo \<and>
   calcular_rendimiento sin_redondeo [ejecucion_ejemplo 60 60] None None = 100 \<and>
   0 \<le> calcular_oee sin_redondeo (calcular_disponibilidad sin_redondeo [ejecucion_ejemplo 60 60])
     (calcular_rendimiento sin_redondeo [ejecucion_ejemplo 60 60] None None)
     (calcular_calidad sin_redondeo [ejecucion_ejemplo 60 60]) \<and>
   calcular_oee sin_redondeo (calcular_disponibilidad sin_redondeo [ejecucion_ejemplo 60 60])
     (calcular_rendimiento sin_redondeo [ejecucion_ejemplo 60 60] None None)
     (calcular_calidad sin_redondeo [ejecucion_ejemplo 60 60]) \<le> 100 \<and>
   (\<exists>d. calcular_eficiencia_machines sin_redondeo calculadora_ejemplo [ejecucion_ejemplo 60 60]
           = Inr [(''M1'', d)] \<and>
        tiempo_productivo d + tiempo_setup d = 60 \<and>
        0 \<le> utilizacion_total d \<and> utilizacion_total d \<le> 100)"
proof -
  have h0: "redondeo_valido sin_redondeo"
    by (simp add: redondeo_valido_def mono_def sin_redondeo_def)
  have h1: "list_all plan_no_negativo [ejecucion_ejemplo 60 60]"
    by (simp add: plan_no_negativo_def ejecucion_ejemplo_def)
  have h2: "list_all real_no_negativo [ejecucion_ejemplo 60 60]"
    by (simp add: real_no_negativo_def ejecucion_ejemplo_def)
  have h3: "0 < capacidad_maquina calculadora_ejemplo"
    by (simp add: capacidad_maquina_def calculadora_ejemplo_def)
  have h5: "calcular_rendimiento sin_redondeo [ejecucion_ejemplo 60 60] None None = 100"
    by (simp add: calcular_rendimiento_def suma_campo_def verdadero_def sin_redondeo_def
          ejecucion_ejemplo_def Let_def)
  obtain d where d: "calcular_eficiencia_machines sin_redondeo calculadora_ejemplo
                       [ejecucion_ejemplo 60 60] = Inr [(''M1'', d)]"
    and t: "tiempo_productivo d + tiempo_setup d = 60"
    by (simp add: calcular_eficiencia_machines_def maquina_de_def texto_no_vacio_def
          datos_de_maquina_def ejecucion_ejemplo_def Let_def)
  have h4: "tiempo_productivo d + tiempo_setup d \<le> capacidad_maquina calculadora_ejemplo"
    using t by (simp add: capacidad_maquina_def calculadora_ejemplo_def)
  have m: "(''M1'', d) \<in> set [(''M1'', d)]" by simp
  have h6: "calcular_rendimiento sin_redondeo [ejecucion_ejemplo 60 60] None None \<le> 100"
    using h5 by simp
  from kpi_rangos [OF h0, of "[ejecucion_ejemplo 60 60]" 5 None None calculadora_ejemplo]
       h0 h1 h2 h3 h4 h5 h6 d t m
  show ?thesis by blast
qed

text \<open>
  The claim as it is written fails. A machine with 4500 real minutes against a capacity
  of 3000 has utilization 150. A record with a negative planned duration gives a
  negative Performance. The exact results of the operations at these inputs (1.5 and 150,
  -0.5 and -50) are floats, which no rounding changes.
\<close>

theorem kpi_fuera_de_rango:
  "utilizaciones sin_redondeo calculadora_ejemplo [ejecucion_ejemplo 4500 4000]
     = Inr [(''M1'', 150)] \<and>
   calcular_rendimiento sin_redondeo [ejecucion_ejemplo 60 (- 30)] None None = - 50"
  by (simp add: calcular_rendimiento_def utilizaciones_def calcular_eficiencia_machines_def
        maquina_de_def texto_no_vacio_def datos_de_maquina_def suma_campo_def
        verdadero_def sin_redondeo_def ejecucion_ejemplo_def calculadora_ejemplo_def Let_def)


end
